theory Spec2Isabelle
  imports Complex_Main "HOL-Library.Multiset" "HOL-Library.List_Lexorder" "HOL-Library.Word"
begin

section \<open>JavaScript numbers\<close>

text \<open>
  The pages aggregate amounts with JavaScript's \<^verbatim>\<open>+\<close> and \<^verbatim>\<open>-\<close> on values of type
  \<^verbatim>\<open>number\<close>: IEEE 754 binary64 arithmetic, every result rounded to the nearest
  double, ties to the even significand. A finite double is modelled by the rational
  number it denotes, and an operation by the exact rational operation followed by
  the rounding \<open>fl\<close>.

  The amount columns are \<^verbatim>\<open>DECIMAL(12,2)\<close> with \<^verbatim>\<open>CHECK (amount > 0)\<close>, so every amount
  read from the store lies between 0.01 and 10^10; an overflow of a sum to
  \<^verbatim>\<open>Infinity\<close> would need more than 10^290 rows and is not part of the model. The
  sign of zero is not represented either (no operation of the pages observes it).
  The lemmas \<open>binade_bounds\<close>, \<open>fl_error\<close> and \<open>fl_representable\<close> below relate
  \<open>fl\<close> to this description.
\<close>

text \<open>The number of binary digits of a positive integer.\<close>

function bit_length :: "int \<Rightarrow> int" where
  "bit_length n = (if n \<le> 0 then 0 else 1 + bit_length (n div 2))"
  by pat_completeness auto
termination
  by (relation "measure nat") auto

declare bit_length.simps [simp del]

definition pow2 :: "int \<Rightarrow> rat" where
  "pow2 e = (if 0 \<le> e then 2 ^ nat e else 1 / 2 ^ nat (- e))"

text \<open>
  The binade of a non-zero rational \<open>x\<close>: the integer \<open>k\<close> with
  \<open>2^k \<le> \<bar>x\<bar> < 2^(k+1)\<close>.
\<close>

definition binade :: "rat \<Rightarrow> int" where
  "binade x =
     (if 1 \<le> \<bar>x\<bar> then bit_length \<lfloor>\<bar>x\<bar>\<rfloor> - 1
      else - bit_length (\<lceil>1 / \<bar>x\<bar>\<rceil> - 1))"

definition round_half_even :: "rat \<Rightarrow> int" where
  "round_half_even x =
     (let n = \<lfloor>x\<rfloor>; r = x - of_int n
      in if r < 1 / 2 then n
         else if 1 / 2 < r then n + 1
         else if even n then n else n + 1)"

text \<open>
  Rounding to the nearest double: the significand has 53 binary digits, so the last
  binary place of a number in binade \<open>k\<close> is \<open>2^(k - 52)\<close>, and no place is smaller
  than \<open>2^(-1074)\<close> (the subnormal numbers).
\<close>

definition fl :: "rat \<Rightarrow> rat" where
  "fl x =
     (if x = 0 then 0
      else (let e = max (- 1074) (binade x - 52)
            in of_int (round_half_even (x / pow2 e)) * pow2 e))"

text \<open>\<^verbatim>\<open>a + b\<close> and \<^verbatim>\<open>a - b\<close> on finite numbers.\<close>

definition js_add :: "rat \<Rightarrow> rat \<Rightarrow> rat" where
  "js_add a b = fl (a + b)"

definition js_sub :: "rat \<Rightarrow> rat \<Rightarrow> rat" where
  "js_sub a b = fl (a - b)"

text \<open>
  \<^verbatim>\<open>x || 0\<close> on a finite number: \<open>0\<close> is the only falsy one.
\<close>

definition or_0 :: "rat \<Rightarrow> rat" where
  "or_0 x = (if x = 0 then 0 else x)"

text \<open>
  The value of \<^verbatim>\<open>Number(formData.get('amount'))\<close>: any JavaScript number, finite or
  not.
\<close>

datatype jsnumber = NaN | PosInfinity | NegInfinity | Num rat

text \<open>\<^verbatim>\<open>amount > balance\<close> for a finite balance.\<close>

fun js_gt :: "jsnumber \<Rightarrow> rat \<Rightarrow> bool" where
  "js_gt NaN b = False"
| "js_gt PosInfinity b = True"
| "js_gt NegInfinity b = False"
| "js_gt (Num a) b = (b < a)"

text \<open>
  \<^verbatim>\<open>JSON.stringify\<close> of the request body writes \<^verbatim>\<open>NaN\<close> and the infinities as
  \<^verbatim>\<open>null\<close>.
\<close>

fun json_number :: "jsnumber \<Rightarrow> rat option" where
  "json_number (Num a) = Some a"
| "json_number _ = None"

section \<open>JavaScript strings\<close>

text \<open>
  A string is a sequence of UTF-16 code units, and a column of type \<^verbatim>\<open>TEXT\<close> holds the
  same sequence. \<^verbatim>\<open>String.prototype.trim\<close> removes from both ends the code points of
  the productions WhiteSpace and LineTerminator of ECMAScript: tab, line feed,
  vertical tab, form feed, carriage return, space, no-break space (U+00A0), U+1680,
  U+2000 to U+200A, U+2028, U+2029, U+202F, U+205F, U+3000 and U+FEFF. Each of them
  is a single code unit.
\<close>

type_synonym js_string = "16 word list"

definition is_white_space :: "16 word \<Rightarrow> bool" where
  "is_white_space c =
     (c \<in> set [0x0009, 0x000A, 0x000B, 0x000C, 0x000D, 0x0020, 0x00A0, 0x1680,
               0x2028, 0x2029, 0x202F, 0x205F, 0x3000, 0xFEFF]
      \<or> (0x2000 \<le> c \<and> c \<le> 0x200A))"

definition trim :: "js_string \<Rightarrow> js_string" where
  "trim s = rev (dropWhile is_white_space (rev (dropWhile is_white_space s)))"

text \<open>\<^verbatim>\<open>s || null\<close>: the empty string is falsy.\<close>

definition or_null :: "js_string \<Rightarrow> js_string option" where
  "or_null s = (if s = [] then None else Some s)"

text \<open>
  The code units of a text written in ASCII; it is used to write the texts of the
  examples.
\<close>

definition utf16 :: "string \<Rightarrow> js_string" where
  "utf16 s = map (\<lambda>c. of_nat (of_char c)) s"

section \<open>The schema\<close>

type_synonym uuid = string

type_synonym timestamptz = int

datatype app_role = admin | staff | viewer

text \<open>
  \<^verbatim>\<open>auth.users\<close> is the identity provider's table; the trigger reads \<^verbatim>\<open>id\<close>,
  \<^verbatim>\<open>phone\<close> and \<^verbatim>\<open>raw_user_meta_data ->> 'full_name'\<close> of a new row.
\<close>

record auth_users_row =
  au_id :: uuid
  au_phone :: "js_string option"
  au_meta_full_name :: "js_string option"

record profiles_row =
  pr_id :: uuid
  pr_phone_number :: "js_string option"
  pr_full_name :: "js_string option"
  pr_role :: app_role
  pr_created_at :: timestamptz
  pr_updated_at :: timestamptz

record user_roles_row =
  ur_id :: uuid
  ur_user_id :: uuid
  ur_role :: app_role

record debtors_row =
  dr_id :: uuid
  dr_name :: js_string
  dr_phone_number :: js_string
  dr_guarantor_name :: "js_string option"
  dr_guarantor_phone :: "js_string option"
  dr_created_at :: timestamptz
  dr_updated_at :: timestamptz
  dr_created_by :: "uuid option"

text \<open>
  An amount of type \<^verbatim>\<open>DECIMAL(12,2)\<close> is held as its number of hundredths.
\<close>

record debts_row =
  de_id :: uuid
  de_debtor_id :: uuid
  de_amount :: int
  de_reason :: js_string
  de_date_recorded :: timestamptz
  de_created_by :: uuid
  de_created_at :: timestamptz

record payments_row =
  pa_id :: uuid
  pa_debtor_id :: uuid
  pa_amount :: int
  pa_date_paid :: timestamptz
  pa_created_by :: uuid
  pa_created_at :: timestamptz

text \<open>
  A table is the list of its rows in the order in which a query without
  \<^verbatim>\<open>ORDER BY\<close> returns them.
\<close>

record database =
  auth_users :: "auth_users_row list"
  profiles :: "profiles_row list"
  user_roles :: "user_roles_row list"
  debtors :: "debtors_row list"
  debts :: "debts_row list"
  payments :: "payments_row list"

datatype pg_error =
    insufficient_privilege
  | not_null_violation
  | check_violation
  | foreign_key_violation
  | unique_violation
  | numeric_value_out_of_range
  | undefined_object
  | invalid_text_representation

section \<open>Functions and row-level security policies of the store\<close>

text \<open>
  \<^verbatim>\<open>has_role\<close>: \<^verbatim>\<open>SELECT EXISTS (SELECT 1 FROM user_roles WHERE user_id = _user_id AND
  role = _role)\<close>.
\<close>

definition has_role :: "database \<Rightarrow> uuid \<Rightarrow> app_role \<Rightarrow> bool" where
  "has_role db user_id' role' =
     list_ex (\<lambda>r. ur_user_id r = user_id' \<and> ur_role r = role') (user_roles db)"

text \<open>
  \<^verbatim>\<open>get_user_role\<close>: \<^verbatim>\<open>SELECT role FROM profiles WHERE id = _user_id\<close>; the result is
  \<^verbatim>\<open>NULL\<close> when no row has that id.
\<close>

definition get_user_role :: "database \<Rightarrow> uuid \<Rightarrow> app_role option" where
  "get_user_role db user_id' =
     map_option pr_role (find (\<lambda>p. pr_id p = user_id') (profiles db))"

text \<open>
  The session is \<^verbatim>\<open>auth.uid()\<close>: the identity of an authenticated caller, or nothing.
  Every policy is granted \<^verbatim>\<open>TO authenticated\<close>.

  The policies "Admins and staff can insert debtors / debts / payments" share the
  expression \<^verbatim>\<open>has_role(auth.uid(), 'admin') OR has_role(auth.uid(), 'staff')\<close>.
\<close>

definition admins_and_staff_can_insert :: "database \<Rightarrow> uuid option \<Rightarrow> bool" where
  "admins_and_staff_can_insert db session =
     (case session of
        None \<Rightarrow> False
      | Some uid \<Rightarrow> has_role db uid admin \<or> has_role db uid staff)"

text \<open>"Admins can delete debtors": \<^verbatim>\<open>USING (has_role(auth.uid(), 'admin'))\<close>.\<close>

definition admins_can_delete :: "database \<Rightarrow> uuid option \<Rightarrow> bool" where
  "admins_can_delete db session =
     (case session of None \<Rightarrow> False | Some uid \<Rightarrow> has_role db uid admin)"

section \<open>Statements on the ledger tables\<close>

text \<open>
  \<^verbatim>\<open>gen_random_uuid()\<close> and \<^verbatim>\<open>now()\<close> are arguments \<open>new_id\<close> and \<open>now\<close> of an
  insert. A failed statement leaves the database as it was: the result \<open>Inl e\<close>
  carries no database.

  An insert checks, in this order: the coercion of the values to the column types,
  the \<^verbatim>\<open>WITH CHECK\<close> expression of the insert policy, \<^verbatim>\<open>NOT NULL\<close> and \<^verbatim>\<open>CHECK\<close>
  constraints, the primary key, the foreign keys.
\<close>

record debtors_insert =
  di_name :: js_string
  di_phone_number :: js_string
  di_guarantor_name :: "js_string option"
  di_guarantor_phone :: "js_string option"

definition insert_debtors ::
  "uuid option \<Rightarrow> uuid \<Rightarrow> timestamptz \<Rightarrow> debtors_insert \<Rightarrow> database \<Rightarrow> pg_error + database" where
  "insert_debtors session new_id now v db =
     (if \<not> admins_and_staff_can_insert db session then Inl insufficient_privilege
      else if new_id \<in> set (map dr_id (debtors db)) then Inl unique_violation
      else Inr (db\<lparr>debtors := debtors db @
             [\<lparr>dr_id = new_id, dr_name = di_name v, dr_phone_number = di_phone_number v,
               dr_guarantor_name = di_guarantor_name v,
               dr_guarantor_phone = di_guarantor_phone v,
               dr_created_at = now, dr_updated_at = now, dr_created_by = None\<rparr>]\<rparr>))"

text \<open>
  The request carries the amount as a JSON number or \<^verbatim>\<open>null\<close>. Its conversion to
  \<^verbatim>\<open>DECIMAL(12,2)\<close> is done by the database from the decimal text of the number and
  is an argument \<open>to_numeric\<close>: the number of hundredths stored, or nothing when the
  value does not fit the column.
\<close>

definition coerce_amount :: "(rat \<Rightarrow> int option) \<Rightarrow> rat option \<Rightarrow> pg_error + int option" where
  "coerce_amount to_numeric a =
     (case a of
        None \<Rightarrow> Inr None
      | Some x \<Rightarrow> (case to_numeric x of
                    None \<Rightarrow> Inl numeric_value_out_of_range
                  | Some c \<Rightarrow> Inr (Some c)))"

text \<open>
  A conversion for the examples: the exact value rounded to two fractional digits,
  half away from zero, at most twelve digits in all.
\<close>

definition numeric_12_2 :: "rat \<Rightarrow> int option" where
  "numeric_12_2 x =
     (let c = (if 0 \<le> x then \<lfloor>x * 100 + 1 / 2\<rfloor> else - \<lfloor>- x * 100 + 1 / 2\<rfloor>)
      in if \<bar>c\<bar> < 10 ^ 12 then Some c else None)"

record debts_insert =
  dei_debtor_id :: uuid
  dei_amount :: "rat option"
  dei_reason :: js_string
  dei_created_by :: uuid

definition insert_debts ::
  "(rat \<Rightarrow> int option) \<Rightarrow> uuid option \<Rightarrow> uuid \<Rightarrow> timestamptz \<Rightarrow> debts_insert \<Rightarrow> database
     \<Rightarrow> pg_error + database" where
  "insert_debts to_numeric session new_id now v db =
     (case coerce_amount to_numeric (dei_amount v) of
        Inl e \<Rightarrow> Inl e
      | Inr amount \<Rightarrow>
          if \<not> admins_and_staff_can_insert db session then Inl insufficient_privilege
          else (case amount of
                  None \<Rightarrow> Inl not_null_violation
                | Some c \<Rightarrow>
                    if \<not> 0 < c then Inl check_violation
                    else if new_id \<in> set (map de_id (debts db)) then Inl unique_violation
                    else if dei_debtor_id v \<notin> set (map dr_id (debtors db))
                          \<or> dei_created_by v \<notin> set (map au_id (auth_users db))
                         then Inl foreign_key_violation
                    else Inr (db\<lparr>debts := debts db @
                           [\<lparr>de_id = new_id, de_debtor_id = dei_debtor_id v, de_amount = c,
                             de_reason = dei_reason v, de_date_recorded = now,
                             de_created_by = dei_created_by v, de_created_at = now\<rparr>]\<rparr>)))"

record payments_insert =
  pai_debtor_id :: uuid
  pai_amount :: "rat option"
  pai_created_by :: uuid

definition insert_payments ::
  "(rat \<Rightarrow> int option) \<Rightarrow> uuid option \<Rightarrow> uuid \<Rightarrow> timestamptz \<Rightarrow> payments_insert \<Rightarrow> database
     \<Rightarrow> pg_error + database" where
  "insert_payments to_numeric session new_id now v db =
     (case coerce_amount to_numeric (pai_amount v) of
        Inl e \<Rightarrow> Inl e
      | Inr amount \<Rightarrow>
          if \<not> admins_and_staff_can_insert db session then Inl insufficient_privilege
          else (case amount of
                  None \<Rightarrow> Inl not_null_violation
                | Some c \<Rightarrow>
                    if \<not> 0 < c then Inl check_violation
                    else if new_id \<in> set (map pa_id (payments db)) then Inl unique_violation
                    else if pai_debtor_id v \<notin> set (map dr_id (debtors db))
                          \<or> pai_created_by v \<notin> set (map au_id (auth_users db))
                         then Inl foreign_key_violation
                    else Inr (db\<lparr>payments := payments db @
                           [\<lparr>pa_id = new_id, pa_debtor_id = pai_debtor_id v, pa_amount = c,
                             pa_date_paid = now, pa_created_by = pai_created_by v,
                             pa_created_at = now\<rparr>]\<rparr>)))"

text \<open>
  \<^verbatim>\<open>DELETE FROM debtors WHERE id = i\<close>. The \<^verbatim>\<open>USING\<close> expression of the delete policy
  selects the rows the caller may delete; a row it does not select is skipped and no
  error is raised. \<^verbatim>\<open>ON DELETE CASCADE\<close> removes, in the same statement, the debts and
  payments whose \<^verbatim>\<open>debtor_id\<close> is the id of a deleted debtor.
\<close>

definition delete_debtors :: "uuid option \<Rightarrow> uuid \<Rightarrow> database \<Rightarrow> pg_error + database" where
  "delete_debtors session i db =
     (let deleted = map dr_id
            (filter (\<lambda>d. dr_id d = i \<and> admins_can_delete db session) (debtors db))
      in Inr (db\<lparr>debtors := filter (\<lambda>d. dr_id d \<notin> set deleted) (debtors db),
                 debts := filter (\<lambda>x. de_debtor_id x \<notin> set deleted) (debts db),
                 payments := filter (\<lambda>x. pa_debtor_id x \<notin> set deleted) (payments db)\<rparr>))"

section \<open>The delete of a debtor, step by step\<close>

text \<open>
  The store runs a statement in a transaction. A row that the transaction deletes is
  marked with the transaction and stays in the table; the query of another session
  leaves a marked row out only when the transaction that marked it has committed,
  which it does in a single step. The delete marks, one row at a time, the rows of
  \<^verbatim>\<open>debtors\<close> that the statement and the delete policy select, and the referential
  action \<^verbatim>\<open>ON DELETE CASCADE\<close> marks the debts and the payments that reference a
  marked debtor; the referential action is not subject to the policies of \<^verbatim>\<open>debts\<close>
  and \<^verbatim>\<open>payments\<close>. The transaction may commit when no row is left to mark, and it
  may abort at any moment before.
\<close>

datatype transaction_status = in_progress | committed | aborted

record deleting =
  dl_debtors :: "(debtors_row \<times> bool) list"
  dl_debts :: "(debts_row \<times> bool) list"
  dl_payments :: "(payments_row \<times> bool) list"
  dl_status :: transaction_status

definition start_delete :: "database \<Rightarrow> deleting" where
  "start_delete db =
     \<lparr>dl_debtors = map (\<lambda>r. (r, False)) (debtors db),
      dl_debts = map (\<lambda>r. (r, False)) (debts db),
      dl_payments = map (\<lambda>r. (r, False)) (payments db),
      dl_status = in_progress\<rparr>"

definition marked_ids :: "deleting \<Rightarrow> uuid list" where
  "marked_ids s = map (\<lambda>v. dr_id (fst v)) (filter snd (dl_debtors s))"

text \<open>No row is left to mark.\<close>

definition nothing_left :: "database \<Rightarrow> uuid option \<Rightarrow> uuid \<Rightarrow> deleting \<Rightarrow> bool" where
  "nothing_left db session i s =
     (list_all (\<lambda>v. dr_id (fst v) = i \<and> admins_can_delete db session \<longrightarrow> snd v) (dl_debtors s)
      \<and> list_all (\<lambda>v. de_debtor_id (fst v) \<in> set (marked_ids s) \<longrightarrow> snd v) (dl_debts s)
      \<and> list_all (\<lambda>v. pa_debtor_id (fst v) \<in> set (marked_ids s) \<longrightarrow> snd v) (dl_payments s))"

inductive delete_step :: "database \<Rightarrow> uuid option \<Rightarrow> uuid \<Rightarrow> deleting \<Rightarrow> deleting \<Rightarrow> bool"
  for db :: database and session :: "uuid option" and i :: uuid where
  delete_row:
    "dl_status s = in_progress \<Longrightarrow> k < length (dl_debtors s) \<Longrightarrow> dl_debtors s ! k = (d, False)
     \<Longrightarrow> dr_id d = i \<Longrightarrow> admins_can_delete db session
     \<Longrightarrow> delete_step db session i s (s\<lparr>dl_debtors := (dl_debtors s)[k := (d, True)]\<rparr>)"
| cascade_debt:
    "dl_status s = in_progress \<Longrightarrow> k < length (dl_debts s) \<Longrightarrow> dl_debts s ! k = (x, False)
     \<Longrightarrow> de_debtor_id x \<in> set (marked_ids s)
     \<Longrightarrow> delete_step db session i s (s\<lparr>dl_debts := (dl_debts s)[k := (x, True)]\<rparr>)"
| cascade_payment:
    "dl_status s = in_progress \<Longrightarrow> k < length (dl_payments s) \<Longrightarrow> dl_payments s ! k = (x, False)
     \<Longrightarrow> pa_debtor_id x \<in> set (marked_ids s)
     \<Longrightarrow> delete_step db session i s (s\<lparr>dl_payments := (dl_payments s)[k := (x, True)]\<rparr>)"
| commit:
    "dl_status s = in_progress \<Longrightarrow> nothing_left db session i s
     \<Longrightarrow> delete_step db session i s (s\<lparr>dl_status := committed\<rparr>)"
| abort:
    "dl_status s = in_progress \<Longrightarrow> delete_step db session i s (s\<lparr>dl_status := aborted\<rparr>)"

code_pred delete_step .

text \<open>
  The marks of a state are sound: the rows are those of the ledger, a marked debtor
  is one that the statement and the policy select, and a marked debt or payment
  references a marked debtor; a committed state has no row left to mark.
\<close>

definition sound_marks :: "database \<Rightarrow> uuid option \<Rightarrow> uuid \<Rightarrow> deleting \<Rightarrow> bool" where
  "sound_marks db session i s =
     (map fst (dl_debtors s) = debtors db
      \<and> map fst (dl_debts s) = debts db
      \<and> map fst (dl_payments s) = payments db
      \<and> list_all (\<lambda>v. snd v \<longrightarrow> dr_id (fst v) = i \<and> admins_can_delete db session) (dl_debtors s)
      \<and> list_all (\<lambda>v. snd v \<longrightarrow> de_debtor_id (fst v) \<in> set (marked_ids s)) (dl_debts s)
      \<and> list_all (\<lambda>v. snd v \<longrightarrow> pa_debtor_id (fst v) \<in> set (marked_ids s)) (dl_payments s)
      \<and> (dl_status s = committed \<longrightarrow> nothing_left db session i s))"

text \<open>
  The number of rows without a mark. Every mark makes it smaller, so the delete comes
  to its commit.
\<close>

definition unmarked :: "deleting \<Rightarrow> nat" where
  "unmarked s =
     length (filter (\<lambda>v. \<not> snd v) (dl_debtors s))
     + length (filter (\<lambda>v. \<not> snd v) (dl_debts s))
     + length (filter (\<lambda>v. \<not> snd v) (dl_payments s))"

text \<open>
  What a reader sees: a reader is a query of another session, run at any moment of
  the delete.
\<close>

definition visible :: "transaction_status \<Rightarrow> ('a \<times> bool) list \<Rightarrow> 'a list" where
  "visible status rows = map fst (filter (\<lambda>v. \<not> (snd v \<and> status = committed)) rows)"

definition snapshot :: "database \<Rightarrow> deleting \<Rightarrow> database" where
  "snapshot db s =
     db\<lparr>debtors := visible (dl_status s) (dl_debtors s),
        debts := visible (dl_status s) (dl_debts s),
        payments := visible (dl_status s) (dl_payments s)\<rparr>"

text \<open>The states of the delete of debtor \<open>i\<close> by the session, started on \<open>db\<close>.\<close>

definition deleting_from :: "database \<Rightarrow> uuid option \<Rightarrow> uuid \<Rightarrow> deleting \<Rightarrow> bool" where
  "deleting_from db session i s = (delete_step db session i)\<^sup>*\<^sup>* (start_delete db) s"

section \<open>Identities and roles\<close>

text \<open>
  Names. The migration creates its tables, its functions and the type \<^verbatim>\<open>app_role\<close> in
  the schema \<^verbatim>\<open>public\<close>. A name written without a schema is looked up in
  \<^verbatim>\<open>pg_catalog\<close> and then in the schemas of the search path of the session or, inside a
  function declared with \<^verbatim>\<open>SET search_path\<close>, of that setting. A function in the
  language \<^verbatim>\<open>plpgsql\<close> resolves the names of a statement when it executes the
  statement, not when the function is created.
\<close>

definition schema_of_app_role :: string where
  "schema_of_app_role = ''public''"

text \<open>
  The cast \<^verbatim>\<open>'viewer'::app_role\<close> under a search path: the error 42704 (the type does
  not exist) when the type is not found, the value of the label otherwise.
\<close>

definition cast_to_app_role :: "string list \<Rightarrow> string \<Rightarrow> pg_error + app_role" where
  "cast_to_app_role search_path label =
     (if schema_of_app_role \<notin> set (''pg_catalog'' # search_path) then Inl undefined_object
      else if label = ''admin'' then Inr admin
      else if label = ''staff'' then Inr staff
      else if label = ''viewer'' then Inr viewer
      else Inl invalid_text_representation)"

text \<open>
  The two inserts of the trigger function. They run with the rights of the owner of
  the function (\<^verbatim>\<open>SECURITY DEFINER\<close>), so no policy applies to them; the tables are
  named with their schema.
\<close>

definition insert_profiles ::
  "timestamptz \<Rightarrow> uuid \<Rightarrow> js_string option \<Rightarrow> js_string option \<Rightarrow> app_role \<Rightarrow> database
     \<Rightarrow> pg_error + database" where
  "insert_profiles now id' phone_number' full_name' role' db =
     (if id' \<in> set (map pr_id (profiles db)) then Inl unique_violation
      else if id' \<notin> set (map au_id (auth_users db)) then Inl foreign_key_violation
      else Inr (db\<lparr>profiles := profiles db @
                    [\<lparr>pr_id = id', pr_phone_number = phone_number', pr_full_name = full_name',
                      pr_role = role', pr_created_at = now, pr_updated_at = now\<rparr>]\<rparr>))"

definition insert_user_roles :: "uuid \<Rightarrow> uuid \<Rightarrow> app_role \<Rightarrow> database \<Rightarrow> pg_error + database" where
  "insert_user_roles new_id user_id' role' db =
     (if new_id \<in> set (map ur_id (user_roles db)) \<or> has_role db user_id' role'
      then Inl unique_violation
      else if user_id' \<notin> set (map au_id (auth_users db)) then Inl foreign_key_violation
      else Inr (db\<lparr>user_roles := user_roles db @
                    [\<lparr>ur_id = new_id, ur_user_id = user_id', ur_role = role'\<rparr>]\<rparr>))"

text \<open>
  \<^verbatim>\<open>handle_new_user\<close>, the function of the trigger \<^verbatim>\<open>on_auth_user_created\<close>, which runs
  \<^verbatim>\<open>AFTER INSERT ON auth.users FOR EACH ROW\<close>. The function is declared
  \<^verbatim>\<open>SET search_path = ''\<close>, and both of its statements write the type of the role as
  \<^verbatim>\<open>app_role\<close>, without a schema. \<^verbatim>\<open>COALESCE(.., '')\<close> makes the full name the empty
  string when the metadata has none.
\<close>

definition handle_new_user ::
  "uuid \<Rightarrow> timestamptz \<Rightarrow> auth_users_row \<Rightarrow> database \<Rightarrow> pg_error + database" where
  "handle_new_user new_id now NEW db =
     (let search_path = []
      in case cast_to_app_role search_path ''viewer'' of
           Inl e \<Rightarrow> Inl e
         | Inr role' \<Rightarrow>
             (case insert_profiles now (au_id NEW) (au_phone NEW)
                     (Some (case au_meta_full_name NEW of None \<Rightarrow> [] | Some n \<Rightarrow> n)) role' db of
                Inl e \<Rightarrow> Inl e
              | Inr db' \<Rightarrow>
                  (case cast_to_app_role search_path ''viewer'' of
                     Inl e \<Rightarrow> Inl e
                   | Inr role'' \<Rightarrow> insert_user_roles new_id (au_id NEW) role'' db')))"

text \<open>
  Provisioning an identity: the insert into \<^verbatim>\<open>auth.users\<close> and its trigger are one
  statement; an error of the trigger aborts the insert.
\<close>

definition insert_auth_users ::
  "uuid \<Rightarrow> timestamptz \<Rightarrow> auth_users_row \<Rightarrow> database \<Rightarrow> pg_error + database" where
  "insert_auth_users new_id now NEW db =
     (if au_id NEW \<in> set (map au_id (auth_users db)) then Inl unique_violation
      else handle_new_user new_id now NEW (db\<lparr>auth_users := auth_users db @ [NEW]\<rparr>))"

definition empty_database :: database where
  "empty_database =
     \<lparr>auth_users = [], profiles = [], user_roles = [], debtors = [], debts = [], payments = []\<rparr>"

section \<open>Queries of the pages\<close>

text \<open>
  Every read policy is \<^verbatim>\<open>FOR SELECT TO authenticated USING (true)\<close> and the pages run
  in an authenticated session: a select sees every row. \<^verbatim>\<open>.eq('debtor_id', id)\<close> keeps
  the rows of one debtor in the order of the table.
\<close>

definition debts_of :: "database \<Rightarrow> uuid \<Rightarrow> debts_row list" where
  "debts_of db i = filter (\<lambda>x. de_debtor_id x = i) (debts db)"

definition payments_of :: "database \<Rightarrow> uuid \<Rightarrow> payments_row list" where
  "payments_of db i = filter (\<lambda>x. pa_debtor_id x = i) (payments db)"

text \<open>
  \<^verbatim>\<open>.order(column, { ascending: false })\<close> on a timestamp column, and
  \<^verbatim>\<open>.order('name')\<close>.
\<close>

definition order_desc :: "('a \<Rightarrow> timestamptz) \<Rightarrow> 'a list \<Rightarrow> 'a list" where
  "order_desc column rows = sort_key (\<lambda>r. - column r) rows"

definition order_by_name :: "debtors_row list \<Rightarrow> debtors_row list" where
  "order_by_name rows = sort_key dr_name rows"

text \<open>
  \<^verbatim>\<open>Number(row.amount)\<close>: the response carries the amount as a JSON number, the
  decimal text of the column value, which is read as the nearest double.
\<close>

definition Number :: "int \<Rightarrow> rat" where
  "Number amount = fl (of_int amount / 100)"

text \<open>\<^verbatim>\<open>rows.reduce((sum, row) => sum + Number(row.amount), 0)\<close>.\<close>

definition reduce_amounts :: "int list \<Rightarrow> rat" where
  "reduce_amounts amounts = foldl (\<lambda>sum amount. js_add sum (Number amount)) 0 amounts"

section \<open>The listing: \<^verbatim>\<open>fetchDebtors\<close> of \<^verbatim>\<open>Index.tsx\<close>\<close>

record totals =
  total_debt :: rat
  total_paid :: rat
  balance :: rat

text \<open>
  The function mapped over the debtors: the row of the debtor (\<^verbatim>\<open>...debtor\<close>) with
  its three totals.
\<close>

definition with_totals :: "database \<Rightarrow> debtors_row \<Rightarrow> debtors_row \<times> totals" where
  "with_totals db debtor =
     (let totalDebt = or_0 (reduce_amounts (map de_amount (debts_of db (dr_id debtor))));
          totalPaid = or_0 (reduce_amounts (map pa_amount (payments_of db (dr_id debtor))))
      in (debtor, \<lparr>total_debt = totalDebt, total_paid = totalPaid,
                   balance = js_sub totalDebt totalPaid\<rparr>))"

definition fetchDebtors :: "database \<Rightarrow> (debtors_row \<times> totals) list" where
  "fetchDebtors db = map (with_totals db) (order_by_name (debtors db))"

section \<open>The search: \<^verbatim>\<open>handleSearch\<close> of \<^verbatim>\<open>SearchPage.tsx\<close>\<close>

record DebtorWithHistory =
  dh_debtor :: debtors_row
  dh_totals :: totals
  dh_debts :: "debts_row list"
  dh_payments :: "payments_row list"

text \<open>The part of \<^verbatim>\<open>handleSearch\<close> after the debtor row has been found.\<close>

definition debtor_with_history :: "database \<Rightarrow> debtors_row \<Rightarrow> DebtorWithHistory" where
  "debtor_with_history db debtorData =
     (let debts' = order_desc de_date_recorded (debts_of db (dr_id debtorData));
          payments' = order_desc pa_date_paid (payments_of db (dr_id debtorData));
          totalDebt = reduce_amounts (map de_amount debts');
          totalPaid = reduce_amounts (map pa_amount payments')
      in \<lparr>dh_debtor = debtorData,
          dh_totals = \<lparr>total_debt = totalDebt, total_paid = totalPaid,
                       balance = js_sub totalDebt totalPaid\<rparr>,
          dh_debts = debts', dh_payments = payments'\<rparr>)"

text \<open>
  \<^verbatim>\<open>.single()\<close> returns the row when the query has exactly one row, and an error
  otherwise.
\<close>

definition single :: "'a list \<Rightarrow> 'a option" where
  "single rows = (case rows of [row] \<Rightarrow> Some row | _ \<Rightarrow> None)"

text \<open>
  The filter \<^verbatim>\<open>.or(`name.ilike.%${searchTerm}%,phone_number.ilike.%${searchTerm}%`)\<close> is
  evaluated by the store; it is the argument \<open>matches\<close>. The result is what the page
  keeps in \<^verbatim>\<open>searchResult\<close>: \<open>Some None\<close> is \<^verbatim>\<open>null\<close>, shown as "No debtor found with
  that name or phone number", and \<open>None\<close> is the early return that starts no search.
  Every error of the query ends in \<^verbatim>\<open>null\<close>; a filter that the store refuses is a
  \<open>matches\<close> that selects no row.
\<close>

definition handleSearch ::
  "(js_string \<Rightarrow> debtors_row \<Rightarrow> bool) \<Rightarrow> js_string \<Rightarrow> database
     \<Rightarrow> DebtorWithHistory option option" where
  "handleSearch matches searchTerm db =
     (if trim searchTerm = [] then None
      else (case single (filter (matches searchTerm) (debtors db)) of
              None \<Rightarrow> Some None
            | Some debtorData \<Rightarrow> Some (Some (debtor_with_history db debtorData))))"

text \<open>
  The filter of the examples. It is the filter of the store for search terms and
  texts of ASCII letters, digits, spaces and hyphens: \<^verbatim>\<open>ILIKE\<close> with the wildcards \<^verbatim>\<open>%\<close>
  (any run of characters) and \<^verbatim>\<open>_\<close> (any one character), the letters A to Z compared
  without case.
\<close>

definition lower :: "16 word \<Rightarrow> 16 word" where
  "lower c = (if 0x41 \<le> c \<and> c \<le> 0x5A then c + 0x20 else c)"

fun ilike :: "js_string \<Rightarrow> js_string \<Rightarrow> bool" where
  "ilike [] [] = True"
| "ilike (c # cs) [] = False"
| "ilike [] (p # ps) = (p = 0x25 \<and> ilike [] ps)"
| "ilike (c # cs) (p # ps) =
     (if p = 0x25 then ilike (c # cs) ps \<or> ilike cs (p # ps)
      else (p = 0x5F \<or> lower p = lower c) \<and> ilike cs ps)"

definition name_or_phone_ilike :: "js_string \<Rightarrow> debtors_row \<Rightarrow> bool" where
  "name_or_phone_ilike searchTerm d =
     (ilike (dr_name d) (utf16 ''%'' @ searchTerm @ utf16 ''%'')
      \<or> ilike (dr_phone_number d) (utf16 ''%'' @ searchTerm @ utf16 ''%''))"

section \<open>The entry pages\<close>

text \<open>
  What a page shows after an event: the redirect of the guard
  (\<^verbatim>\<open>navigate('/'); return null\<close>, the form is never rendered), a destructive
  "Error" toast, or the toast of a recorded entry followed by \<^verbatim>\<open>navigate('/')\<close>.
\<close>

datatype message =
    Please_select_a_debtor
  | Payment_amount_exceeds_outstanding_balance
  | Not_authenticated
  | Store pg_error

datatype shown =
    Redirected
  | Error message
  | Debtor_Added
  | Debt_Recorded
  | Payment_Recorded

text \<open>
  The guard of the three pages:
  \<^verbatim>\<open>if (userRole !== 'admin' && userRole !== 'staff')\<close>. \<^verbatim>\<open>userRole\<close> comes from the
  session context and is an argument; it is nothing while no role is known.
\<close>

definition may_enter :: "app_role option \<Rightarrow> bool" where
  "may_enter userRole = (\<not> (userRole \<noteq> Some admin \<and> userRole \<noteq> Some staff))"

subsection \<open>\<^verbatim>\<open>AddDebtorPage\<close>\<close>

record debtor_form =
  f_name :: js_string
  f_phoneNumber :: js_string
  f_guarantorName :: js_string
  f_guarantorPhone :: js_string

definition AddDebtorPage_handleSubmit ::
  "uuid option \<Rightarrow> uuid \<Rightarrow> timestamptz \<Rightarrow> debtor_form \<Rightarrow> database \<Rightarrow> shown \<times> database" where
  "AddDebtorPage_handleSubmit session new_id now formData db =
     (case insert_debtors session new_id now
             \<lparr>di_name = trim (f_name formData),
              di_phone_number = trim (f_phoneNumber formData),
              di_guarantor_name = or_null (trim (f_guarantorName formData)),
              di_guarantor_phone = or_null (trim (f_guarantorPhone formData))\<rparr> db of
        Inl error \<Rightarrow> (Error (Store error), db)
      | Inr db' \<Rightarrow> (Debtor_Added, db'))"

definition AddDebtorPage ::
  "app_role option \<Rightarrow> uuid option \<Rightarrow> uuid \<Rightarrow> timestamptz \<Rightarrow> debtor_form \<Rightarrow> database
     \<Rightarrow> shown \<times> database" where
  "AddDebtorPage userRole session new_id now formData db =
     (if \<not> may_enter userRole then (Redirected, db)
      else AddDebtorPage_handleSubmit session new_id now formData db)"

subsection \<open>\<^verbatim>\<open>AddDebtPage\<close>\<close>

text \<open>
  \<^verbatim>\<open>supabase.auth.getUser()\<close> yields the identity of the session, so \<^verbatim>\<open>created_by\<close> is
  the caller. The empty \<^verbatim>\<open>selectedDebtor\<close> is the state before a choice.
\<close>

definition AddDebtPage_handleSubmit ::
  "(rat \<Rightarrow> int option) \<Rightarrow> uuid option \<Rightarrow> uuid \<Rightarrow> timestamptz \<Rightarrow> string \<Rightarrow> jsnumber
     \<Rightarrow> js_string \<Rightarrow> database \<Rightarrow> shown \<times> database" where
  "AddDebtPage_handleSubmit to_numeric session new_id now selectedDebtor amount reason db =
     (if selectedDebtor = [] then (Error Please_select_a_debtor, db)
      else (case session of
              None \<Rightarrow> (Error Not_authenticated, db)
            | Some user \<Rightarrow>
                (case insert_debts to_numeric session new_id now
                        \<lparr>dei_debtor_id = selectedDebtor, dei_amount = json_number amount,
                         dei_reason = trim reason, dei_created_by = user\<rparr> db of
                   Inl error \<Rightarrow> (Error (Store error), db)
                 | Inr db' \<Rightarrow> (Debt_Recorded, db'))))"

definition AddDebtPage ::
  "app_role option \<Rightarrow> (rat \<Rightarrow> int option) \<Rightarrow> uuid option \<Rightarrow> uuid \<Rightarrow> timestamptz \<Rightarrow> string
     \<Rightarrow> jsnumber \<Rightarrow> js_string \<Rightarrow> database \<Rightarrow> shown \<times> database" where
  "AddDebtPage userRole to_numeric session new_id now selectedDebtor amount reason db =
     (if \<not> may_enter userRole then (Redirected, db)
      else AddDebtPage_handleSubmit to_numeric session new_id now selectedDebtor amount reason db)"

subsection \<open>\<^verbatim>\<open>AddPaymentPage\<close>\<close>

record DebtorWithBalance =
  dwb_id :: uuid
  dwb_name :: js_string
  dwb_phone_number :: js_string
  dwb_balance :: rat

text \<open>The function mapped over the debtors.\<close>

definition with_balance :: "database \<Rightarrow> debtors_row \<Rightarrow> DebtorWithBalance" where
  "with_balance db debtor =
     (let totalDebt = or_0 (reduce_amounts (map de_amount (debts_of db (dr_id debtor))));
          totalPaid = or_0 (reduce_amounts (map pa_amount (payments_of db (dr_id debtor))))
      in \<lparr>dwb_id = dr_id debtor, dwb_name = dr_name debtor,
          dwb_phone_number = dr_phone_number debtor,
          dwb_balance = js_sub totalDebt totalPaid\<rparr>)"

text \<open>"Only show debtors with outstanding balance".\<close>

definition fetchDebtorsWithBalance :: "database \<Rightarrow> DebtorWithBalance list" where
  "fetchDebtorsWithBalance db =
     filter (\<lambda>debtor. 0 < dwb_balance debtor)
       (map (with_balance db) (order_by_name (debtors db)))"

text \<open>The \<^verbatim>\<open>try\<close> block of \<^verbatim>\<open>handleSubmit\<close>.\<close>

definition AddPaymentPage_insert ::
  "(rat \<Rightarrow> int option) \<Rightarrow> uuid option \<Rightarrow> uuid \<Rightarrow> timestamptz \<Rightarrow> string \<Rightarrow> jsnumber \<Rightarrow> database
     \<Rightarrow> shown \<times> database" where
  "AddPaymentPage_insert to_numeric session new_id now selectedDebtor amount db =
     (case session of
        None \<Rightarrow> (Error Not_authenticated, db)
      | Some user \<Rightarrow>
          (case insert_payments to_numeric session new_id now
                  \<lparr>pai_debtor_id = selectedDebtor, pai_amount = json_number amount,
                   pai_created_by = user\<rparr> db of
             Inl error \<Rightarrow> (Error (Store error), db)
           | Inr db' \<Rightarrow> (Payment_Recorded, db')))"

text \<open>
  \<open>debtors\<close> is the list the page loaded with \<^verbatim>\<open>fetchDebtorsWithBalance\<close>; the
  database may have changed since.
\<close>

definition AddPaymentPage_handleSubmit ::
  "(rat \<Rightarrow> int option) \<Rightarrow> uuid option \<Rightarrow> uuid \<Rightarrow> timestamptz \<Rightarrow> DebtorWithBalance list \<Rightarrow> string
     \<Rightarrow> jsnumber \<Rightarrow> database \<Rightarrow> shown \<times> database" where
  "AddPaymentPage_handleSubmit to_numeric session new_id now debtors' selectedDebtor amount db =
     (if selectedDebtor = [] then (Error Please_select_a_debtor, db)
      else (case find (\<lambda>d. dwb_id d = selectedDebtor) debtors' of
              Some debtor \<Rightarrow>
                if js_gt amount (dwb_balance debtor)
                then (Error Payment_amount_exceeds_outstanding_balance, db)
                else AddPaymentPage_insert to_numeric session new_id now selectedDebtor amount db
            | None \<Rightarrow>
                AddPaymentPage_insert to_numeric session new_id now selectedDebtor amount db))"

definition AddPaymentPage ::
  "app_role option \<Rightarrow> (rat \<Rightarrow> int option) \<Rightarrow> uuid option \<Rightarrow> uuid \<Rightarrow> timestamptz
     \<Rightarrow> DebtorWithBalance list \<Rightarrow> string \<Rightarrow> jsnumber \<Rightarrow> database \<Rightarrow> shown \<times> database" where
  "AddPaymentPage userRole to_numeric session new_id now debtors' selectedDebtor amount db =
     (if \<not> may_enter userRole then (Redirected, db)
      else AddPaymentPage_handleSubmit to_numeric session new_id now debtors' selectedDebtor
             amount db)"

section \<open>Exact reductions\<close>

text \<open>
  A reduction started at \<open>acc\<close> is unrounded when every amount is read as the double
  of its own value and no addition rounds.
\<close>

fun unrounded :: "rat \<Rightarrow> int list \<Rightarrow> bool" where
  "unrounded acc [] = True"
| "unrounded acc (amount # amounts) =
     (Number amount = of_int amount / 100
      \<and> js_add acc (Number amount) = acc + Number amount
      \<and> unrounded (js_add acc (Number amount)) amounts)"

declare unrounded.simps [simp del]

section \<open>Example ledgers\<close>

definition user_S :: auth_users_row where
  "user_S = \<lparr>au_id = ''S'', au_phone = None, au_meta_full_name = Some (utf16 ''Sam'')\<rparr>"

definition user_V :: auth_users_row where
  "user_V = \<lparr>au_id = ''V'', au_phone = None, au_meta_full_name = None\<rparr>"

definition debtor_D :: debtors_row where
  "debtor_D =
     \<lparr>dr_id = ''D'', dr_name = utf16 ''Dana'', dr_phone_number = utf16 ''555-0001'',
      dr_guarantor_name = None, dr_guarantor_phone = None,
      dr_created_at = 0, dr_updated_at = 0, dr_created_by = None\<rparr>"

definition debtor_E :: debtors_row where
  "debtor_E =
     \<lparr>dr_id = ''E'', dr_name = utf16 ''Eli'', dr_phone_number = utf16 ''555-0002'',
      dr_guarantor_name = None, dr_guarantor_phone = None,
      dr_created_at = 0, dr_updated_at = 0, dr_created_by = None\<rparr>"

definition debt_of_D :: "uuid \<Rightarrow> int \<Rightarrow> timestamptz \<Rightarrow> debts_row" where
  "debt_of_D i amount t =
     \<lparr>de_id = i, de_debtor_id = ''D'', de_amount = amount, de_reason = utf16 ''loan'',
      de_date_recorded = t, de_created_by = ''S'', de_created_at = t\<rparr>"

definition payment_of_D :: "uuid \<Rightarrow> int \<Rightarrow> timestamptz \<Rightarrow> payments_row" where
  "payment_of_D i amount t =
     \<lparr>pa_id = i, pa_debtor_id = ''D'', pa_amount = amount, pa_date_paid = t,
      pa_created_by = ''S'', pa_created_at = t\<rparr>"

text \<open>
  Identity \<open>S\<close> has the role staff and \<open>V\<close> the role viewer; both tables of roles
  agree.
\<close>

definition staff_and_viewer :: database where
  "staff_and_viewer =
     \<lparr>auth_users = [user_S, user_V],
      profiles =
        [\<lparr>pr_id = ''S'', pr_phone_number = None, pr_full_name = Some (utf16 ''Sam''), pr_role = staff,
          pr_created_at = 0, pr_updated_at = 0\<rparr>,
         \<lparr>pr_id = ''V'', pr_phone_number = None, pr_full_name = Some [], pr_role = viewer,
          pr_created_at = 0, pr_updated_at = 0\<rparr>],
      user_roles =
        [\<lparr>ur_id = ''r1'', ur_user_id = ''S'', ur_role = staff\<rparr>,
         \<lparr>ur_id = ''r2'', ur_user_id = ''V'', ur_role = viewer\<rparr>],
      debtors = [], debts = [], payments = []\<rparr>"

text \<open>Debtor \<open>D\<close> with debts 50.00 and 25.50 and a payment of 30.00.\<close>

definition ledger_D :: database where
  "ledger_D =
     staff_and_viewer
       \<lparr>debtors := [debtor_D],
        debts := [debt_of_D ''d1'' 5000 1, debt_of_D ''d2'' 2550 2],
        payments := [payment_of_D ''p1'' 3000 3]\<rparr>"

text \<open>The same rows, the two debts returned by the store in the opposite order.\<close>

definition ledger_D_reversed :: database where
  "ledger_D_reversed = ledger_D\<lparr>debts := [debt_of_D ''d2'' 2550 2, debt_of_D ''d1'' 5000 1]\<rparr>"

text \<open>Debtor \<open>D\<close> with debts 0.10, 0.20 and 0.30, recorded in this order.\<close>

definition ledger_dimes :: database where
  "ledger_dimes =
     staff_and_viewer
       \<lparr>debtors := [debtor_D],
        debts := [debt_of_D ''d1'' 10 1, debt_of_D ''d2'' 20 2, debt_of_D ''d3'' 30 3]\<rparr>"

text \<open>The same rows, returned by the store in the opposite order.\<close>

definition ledger_dimes_reversed :: database where
  "ledger_dimes_reversed =
     staff_and_viewer
       \<lparr>debtors := [debtor_D],
        debts := [debt_of_D ''d3'' 30 3, debt_of_D ''d2'' 20 2, debt_of_D ''d1'' 10 1]\<rparr>"



text \<open>Two debtors whose phone numbers both contain 555.\<close>

definition ledger_D_E :: database where
  "ledger_D_E = ledger_D\<lparr>debtors := [debtor_D, debtor_E]\<rparr>"

text \<open>
  Identity \<open>A\<close> has the role admin. Debtor \<open>D\<close> has two debts and a payment, debtor
  \<open>E\<close> has one debt.
\<close>

definition user_A :: auth_users_row where
  "user_A = \<lparr>au_id = ''A'', au_phone = None, au_meta_full_name = Some (utf16 ''Ada'')\<rparr>"

definition debt_of_E :: debts_row where
  "debt_of_E =
     \<lparr>de_id = ''e1'', de_debtor_id = ''E'', de_amount = 1000, de_reason = utf16 ''rent'',
      de_date_recorded = 5, de_created_by = ''S'', de_created_at = 5\<rparr>"

definition ledger_A :: database where
  "ledger_A =
     \<lparr>auth_users = [user_S, user_V, user_A],
      profiles =
        [\<lparr>pr_id = ''S'', pr_phone_number = None, pr_full_name = Some (utf16 ''Sam''), pr_role = staff,
          pr_created_at = 0, pr_updated_at = 0\<rparr>,
         \<lparr>pr_id = ''V'', pr_phone_number = None, pr_full_name = Some [], pr_role = viewer,
          pr_created_at = 0, pr_updated_at = 0\<rparr>,
         \<lparr>pr_id = ''A'', pr_phone_number = None, pr_full_name = Some (utf16 ''Ada''), pr_role = admin,
          pr_created_at = 0, pr_updated_at = 0\<rparr>],
      user_roles =
        [\<lparr>ur_id = ''r1'', ur_user_id = ''S'', ur_role = staff\<rparr>,
         \<lparr>ur_id = ''r2'', ur_user_id = ''V'', ur_role = viewer\<rparr>,
         \<lparr>ur_id = ''r3'', ur_user_id = ''A'', ur_role = admin\<rparr>],
      debtors = [debtor_D, debtor_E],
      debts = [debt_of_D ''d1'' 5000 1, debt_of_E, debt_of_D ''d2'' 2550 2],
      payments = [payment_of_D ''p1'' 3000 3]\<rparr>"

text \<open>
  Two states of the delete of debtor \<open>D\<close> by administrator \<open>A\<close> on this ledger: the
  debtor and its first debt are marked and the transaction is in progress; every row
  of \<open>D\<close> is marked and the transaction has committed.
\<close>

definition half_deleted :: deleting where
  "half_deleted =
     \<lparr>dl_debtors = [(debtor_D, True), (debtor_E, False)],
      dl_debts = [(debt_of_D ''d1'' 5000 1, True), (debt_of_E, False),
                  (debt_of_D ''d2'' 2550 2, False)],
      dl_payments = [(payment_of_D ''p1'' 3000 3, False)],
      dl_status = in_progress\<rparr>"

definition fully_deleted :: deleting where
  "fully_deleted =
     \<lparr>dl_debtors = [(debtor_D, True), (debtor_E, False)],
      dl_debts = [(debt_of_D ''d1'' 5000 1, True), (debt_of_E, False),
                  (debt_of_D ''d2'' 2550 2, True)],
      dl_payments = [(payment_of_D ''p1'' 3000 3, True)],
      dl_status = committed\<rparr>"

section \<open>Properties of the arithmetic\<close>

subsection \<open>The rounding\<close>

text \<open>
  \<open>binade\<close> computes the binade, \<open>round_half_even\<close> errs by at most one half, and so
  \<open>fl\<close> returns a number within half a unit in the last place of its argument and
  leaves a double unchanged.
\<close>

lemma bit_length_bounds:
  "0 < n \<Longrightarrow> 0 < bit_length n \<and> 2 ^ nat (bit_length n - 1) \<le> n \<and> n < 2 ^ nat (bit_length n)"
proof (induction n rule: bit_length.induct)
  case (1 n)
  show ?case
  proof (cases "n div 2 = 0")
    case True
    with "1.prems" have "n = 1"
      by presburger
    then show ?thesis
      by (simp add: bit_length.simps)
  next
    case False
    with "1.prems" have pos: "0 < n div 2"
      by presburger
    from "1.prems" have "\<not> n \<le> 0"
      by simp
    from "1.IH" [OF this pos] have k: "0 < bit_length (n div 2)"
      and lo: "2 ^ nat (bit_length (n div 2) - 1) \<le> n div 2"
      and hi: "n div 2 < 2 ^ nat (bit_length (n div 2))"
      by blast+
    from "1.prems" have b: "bit_length n = 1 + bit_length (n div 2)"
      by (subst bit_length.simps) simp
    from k have e: "nat (bit_length (n div 2)) = Suc (nat (bit_length (n div 2) - 1))"
      by simp
    have "2 ^ nat (bit_length n - 1) = (2::int) ^ nat (bit_length (n div 2))"
      by (simp add: b)
    also have "\<dots> = 2 * 2 ^ nat (bit_length (n div 2) - 1)"
      by (subst e) simp
    also from lo have "\<dots> \<le> 2 * (n div 2)"
      by simp
    also have "\<dots> \<le> n"
      by presburger
    finally have 1: "2 ^ nat (bit_length n - 1) \<le> n" .
    have "n < 2 * (n div 2) + 2"
      by presburger
    also from hi have "\<dots> \<le> 2 * 2 ^ nat (bit_length (n div 2))"
      by simp
    also from k have "\<dots> = 2 ^ nat (bit_length n)"
      by (simp add: b nat_add_distrib)
    finally have 2: "n < 2 ^ nat (bit_length n)" .
    from k b 1 2 show ?thesis
      by simp
  qed
qed

lemma pow2_pos [simp]: "0 < pow2 e"
  by (simp add: pow2_def)

lemma pow2_neq_0 [simp]: "pow2 e \<noteq> 0"
  using pow2_pos [of e] by (simp only: less_le) simp

lemma abs_pow2 [simp]: "\<bar>pow2 e\<bar> = pow2 e"
  using pow2_pos [of e] by (simp only: abs_of_pos)

lemma pow2_nonneg [simp]: "0 \<le> pow2 e"
  using pow2_pos [of e] by (rule less_imp_le)

lemma pow2_Suc: "pow2 (e + 1) = 2 * pow2 e"
proof (cases "0 \<le> e")
  case True
  then show ?thesis
    by (simp add: pow2_def nat_add_distrib)
next
  case False
  then have "nat (- e) = Suc (nat (- (e + 1)))"
    by simp
  with False show ?thesis
    by (cases "e = -1") (simp_all add: pow2_def)
qed

lemma binade_bounds:
  assumes "x \<noteq> 0"
  shows "pow2 (binade x) \<le> \<bar>x\<bar> \<and> \<bar>x\<bar> < pow2 (binade x + 1)"
proof (cases "1 \<le> \<bar>x\<bar>")
  case True
  let ?n = "\<lfloor>\<bar>x\<bar>\<rfloor>"
  from True have n: "0 < ?n"
    by linarith
  note b = bit_length_bounds [OF n]
  from True have bin: "binade x = bit_length ?n - 1"
    by (simp add: binade_def)
  from b have k: "0 \<le> bit_length ?n - 1"
    by simp
  have "pow2 (binade x) = of_int (2 ^ nat (bit_length ?n - 1))"
    using k by (simp add: bin pow2_def)
  also from b have "\<dots> \<le> of_int ?n"
    by (simp only: of_int_le_iff)
  also have "\<dots> \<le> \<bar>x\<bar>"
    by linarith
  finally have 1: "pow2 (binade x) \<le> \<bar>x\<bar>" .
  have "\<bar>x\<bar> < of_int (?n + 1)"
    by linarith
  also from b have "?n + 1 \<le> 2 ^ nat (bit_length ?n)"
    by simp
  then have "(of_int (?n + 1) :: rat) \<le> of_int (2 ^ nat (bit_length ?n))"
    by (simp only: of_int_le_iff)
  also have "\<dots> = pow2 (binade x + 1)"
    using b by (simp add: bin pow2_def)
  finally have 2: "\<bar>x\<bar> < pow2 (binade x + 1)" .
  from 1 2 show ?thesis ..
next
  case False
  let ?y = "1 / \<bar>x\<bar>"
  let ?m = "\<lceil>?y\<rceil> - 1"
  from False assms have x: "0 < \<bar>x\<bar>" "\<bar>x\<bar> < 1"
    by simp_all
  then have y: "1 < ?y"
    by simp
  then have m: "0 < ?m"
    by linarith
  note b = bit_length_bounds [OF m]
  from False have bin: "binade x = - bit_length ?m"
    by (simp add: binade_def)
  from b have j: "0 < bit_length ?m"
    by simp
  have ylo: "of_int ?m < ?y"
    by linarith
  have yhi: "?y \<le> of_int (?m + 1)"
    by (simp add: le_of_int_ceiling)
  from b have "?m + 1 \<le> 2 ^ nat (bit_length ?m)"
    by simp
  then have "(of_int (?m + 1) :: rat) \<le> of_int (2 ^ nat (bit_length ?m))"
    by (simp only: of_int_le_iff)
  with yhi have "?y \<le> of_int (2 ^ nat (bit_length ?m))"
    by (rule order_trans)
  then have "?y \<le> 2 ^ nat (bit_length ?m)"
    by simp
  with x have "1 \<le> 2 ^ nat (bit_length ?m) * \<bar>x\<bar>"
    by (simp add: pos_divide_le_eq)
  then have "1 / 2 ^ nat (bit_length ?m) \<le> \<bar>x\<bar>"
    by (simp add: pos_divide_le_eq mult.commute)
  moreover have "pow2 (binade x) = 1 / 2 ^ nat (bit_length ?m)"
    using j by (simp add: bin pow2_def)
  ultimately have 1: "pow2 (binade x) \<le> \<bar>x\<bar>"
    by simp
  from b have "(of_int (2 ^ nat (bit_length ?m - 1)) :: rat) \<le> of_int ?m"
    by (simp only: of_int_le_iff)
  from this ylo have "of_int (2 ^ nat (bit_length ?m - 1)) < ?y"
    by (rule le_less_trans)
  then have "2 ^ nat (bit_length ?m - 1) < ?y"
    by simp
  with x have "2 ^ nat (bit_length ?m - 1) * \<bar>x\<bar> < 1"
    by (simp add: pos_less_divide_eq)
  then have "\<bar>x\<bar> < 1 / 2 ^ nat (bit_length ?m - 1)"
    by (simp add: pos_less_divide_eq mult.commute)
  moreover have "pow2 (binade x + 1) = 1 / 2 ^ nat (bit_length ?m - 1)"
  proof (cases "bit_length ?m = 1")
    case True
    then show ?thesis
      by (simp add: bin pow2_def)
  next
    case False
    with j have "\<not> 0 \<le> - bit_length ?m + 1" "nat (- (- bit_length ?m + 1)) = nat (bit_length ?m - 1)"
      by simp_all
    then show ?thesis
      by (simp add: bin pow2_def)
  qed
  ultimately have 2: "\<bar>x\<bar> < pow2 (binade x + 1)"
    by simp
  from 1 2 show ?thesis ..
qed

lemma round_half_even_error: "\<bar>of_int (round_half_even x) - x\<bar> \<le> 1 / 2"
proof -
  have "of_int \<lfloor>x\<rfloor> \<le> x" "x < of_int \<lfloor>x\<rfloor> + 1"
    by linarith+
  then show ?thesis
    by (auto simp: round_half_even_def Let_def)
qed

lemma round_half_even_of_int [simp]: "round_half_even (of_int n) = n"
  by (simp add: round_half_even_def)

lemma pow2_add: "pow2 (a + b) = pow2 a * pow2 b"
proof (induction b rule: int_induct [where k = 0])
  case base
  then show ?case
    by (simp add: pow2_def)
next
  case (step1 i)
  have "pow2 (a + (i + 1)) = pow2 ((a + i) + 1)"
    by (simp add: add.assoc)
  then show ?case
    by (simp add: pow2_Suc step1.IH)
next
  case (step2 i)
  have "pow2 (a + i) = pow2 ((a + (i - 1)) + 1)" "pow2 i = pow2 ((i - 1) + 1)"
    by simp_all
  then have "2 * pow2 (a + (i - 1)) = pow2 a * (2 * pow2 (i - 1))"
    by (simp only: pow2_Suc step2.IH)
  then show ?case
    by simp
qed

lemma pow2_mono: "a \<le> b \<Longrightarrow> pow2 a \<le> pow2 b"
proof -
  assume "a \<le> b"
  then have "0 \<le> b - a"
    by simp
  then have "1 \<le> pow2 (b - a)"
    by (simp add: pow2_def)
  then have "pow2 a * 1 \<le> pow2 a * pow2 (b - a)"
    by (intro mult_left_mono) (simp_all add: less_imp_le)
  then show ?thesis
    by (simp flip: pow2_add)
qed

lemma pow2_nonneg_of_int: "0 \<le> e \<Longrightarrow> pow2 e = of_int (2 ^ nat e)"
  by (simp add: pow2_def)

text \<open>The result of \<open>fl\<close> is within half a unit in the last place of its argument.\<close>

lemma fl_error:
  assumes "x \<noteq> 0"
  shows "\<bar>fl x - x\<bar> \<le> pow2 (max (- 1074) (binade x - 52)) / 2"
proof -
  let ?p = "pow2 (max (- 1074) (binade x - 52))"
  have p: "0 < ?p"
    by simp
  from assms have "fl x - x = (of_int (round_half_even (x / ?p)) - x / ?p) * ?p"
    by (simp add: fl_def Let_def algebra_simps)
  then have "\<bar>fl x - x\<bar> = \<bar>of_int (round_half_even (x / ?p)) - x / ?p\<bar> * ?p"
    using p by (simp add: abs_mult)
  also have "\<dots> \<le> 1 / 2 * ?p"
    using p by (intro mult_right_mono round_half_even_error) simp
  finally show ?thesis
    by simp
qed

text \<open>
  A number with a significand of at most 53 binary digits and an exponent of at least
  \<open>-1074\<close> is a double: \<open>fl\<close> returns it unchanged.
\<close>

lemma fl_representable:
  assumes "\<bar>m\<bar> < 2 ^ 53" and "- 1074 \<le> e"
  shows "fl (of_int m * pow2 e) = of_int m * pow2 e"
proof (cases "m = 0")
  case True
  then show ?thesis
    by (simp add: fl_def)
next
  case False
  let ?x = "of_int m * pow2 e :: rat"
  let ?e = "max (- 1074) (binade ?x - 52)"
  from False have x: "?x \<noteq> 0"
    by (simp add: pow2_def)
  from assms(1) have "\<bar>of_int m :: rat\<bar> < of_int (2 ^ 53)"
    by (simp only: of_int_less_iff flip: of_int_abs)
  then have "\<bar>of_int m :: rat\<bar> * pow2 e < of_int (2 ^ 53) * pow2 e"
    by (rule mult_strict_right_mono) simp
  then have "\<bar>?x\<bar> < of_int (2 ^ 53) * pow2 e"
    by (simp add: abs_mult)
  also have "\<dots> = pow2 (53 + e)"
  proof -
    have "pow2 53 = of_int (2 ^ 53)"
      by (simp add: pow2_def)
    then show ?thesis
      by (simp only: pow2_add)
  qed
  finally have "pow2 (binade ?x) < pow2 (53 + e)"
    using binade_bounds [OF x] by simp
  then have "binade ?x < 53 + e"
    using pow2_mono [of "53 + e" "binade ?x"] by (cases "binade ?x < 53 + e") simp_all
  with assms(2) have le: "?e \<le> e"
    by simp
  have "pow2 (e - ?e) * pow2 ?e = pow2 e"
    by (simp flip: pow2_add)
  then have "pow2 e / pow2 ?e = pow2 (e - ?e)"
    by (simp add: nonzero_divide_eq_eq)
  also from le have "pow2 (e - ?e) = of_int (2 ^ nat (e - ?e))"
    by (intro pow2_nonneg_of_int) simp
  finally have "of_int m * (pow2 e / pow2 ?e) = (of_int m * of_int (2 ^ nat (e - ?e)) :: rat)"
    by (simp only:)
  then have "?x / pow2 ?e = of_int (m * 2 ^ nat (e - ?e))"
    by (simp only: times_divide_eq_right of_int_mult)
  then have "of_int (round_half_even (?x / pow2 ?e)) * pow2 ?e = ?x / pow2 ?e * pow2 ?e"
    by (simp only: round_half_even_of_int)
  also have "\<dots> = ?x"
    by simp
  finally show ?thesis
    using x by (simp add: fl_def Let_def)
qed

lemma fl_of_int: "\<bar>n\<bar> < 2 ^ 53 \<Longrightarrow> fl (of_int n) = of_int n"
  using fl_representable [of n 0] by (simp add: pow2_def)

text \<open>
  Amounts of whole currency units are read and added exactly as long as the sum stays
  below \<open>2^53\<close>.
\<close>

lemma Number_whole: "\<bar>k\<bar> < 2 ^ 53 \<Longrightarrow> Number (100 * k) = of_int k"
  by (simp add: Number_def fl_of_int)

lemma unrounded_whole:
  assumes "\<forall>k \<in> set ks. 0 \<le> k" and "0 \<le> a" and "a + sum_list ks < 2 ^ 53"
  shows "unrounded (of_int a) (map (\<lambda>k. 100 * k) ks)"
  using assms
proof (induction ks arbitrary: a)
  case Nil
  then show ?case
    by (simp add: unrounded.simps)
next
  case (Cons k ks)
  from Cons.prems have k: "0 \<le> k" and rest: "\<forall>k \<in> set ks. 0 \<le> k"
    by simp_all
  from rest have s: "0 \<le> sum_list ks"
    by (induction ks) simp_all
  with Cons.prems k have bk: "\<bar>k\<bar> < 2 ^ 53" and bak: "\<bar>a + k\<bar> < 2 ^ 53"
    by simp_all
  from bk have n: "Number (100 * k) = of_int k"
    by (rule Number_whole)
  have "js_add (of_int a) (Number (100 * k)) = fl (of_int (a + k))"
    by (simp add: js_add_def n)
  also from bak have "\<dots> = of_int (a + k)"
    by (rule fl_of_int)
  finally have j: "js_add (of_int a) (Number (100 * k)) = of_int (a + k)" .
  from Cons.prems k have "0 \<le> a + k" "(a + k) + sum_list ks < 2 ^ 53"
    by simp_all
  with rest have "unrounded (of_int (a + k)) (map (\<lambda>k. 100 * k) ks)"
    by (intro Cons.IH)
  with n j show ?case
    by (simp add: unrounded.simps)
qed

subsection \<open>Arithmetic of the examples\<close>

lemma reduce_amounts_10_20_30: "reduce_amounts [10, 20, 30] = 1351079888211149 / 2251799813685248"
  by code_simp

lemma reduce_amounts_30_20_10: "reduce_amounts [30, 20, 10] = 5404319552844595 / 9007199254740992"
  by code_simp

lemma reduce_amounts_5000_2550: "reduce_amounts [5000, 2550] = 151 / 2"
  by code_simp

lemma reduce_amounts_3000: "reduce_amounts [3000] = 30"
  by code_simp

lemma js_sub_example: "js_sub (151 / 2) 30 = 91 / 2"
  by code_simp

lemma js_sub_0 [simp]: "js_sub x 0 = fl x"
  by (simp add: js_sub_def)

lemma fl_0 [simp]: "fl 0 = 0"
  by (simp add: fl_def)

lemma fl_sum_10_20_30: "fl (1351079888211149 / 2251799813685248) = 1351079888211149 / 2251799813685248"
  by code_simp

lemma fl_sum_30_20_10: "fl (5404319552844595 / 9007199254740992) = 5404319552844595 / 9007199254740992"
  by code_simp

lemma unrounded_5000_2550: "unrounded 0 [5000, 2550]"
  by code_simp

lemma unrounded_2550_5000: "unrounded 0 [2550, 5000]"
  by code_simp

lemma unrounded_3000: "unrounded 0 [3000]"
  by code_simp

subsection \<open>Reductions\<close>

lemma or_0_id [simp]: "or_0 x = x"
  by (simp add: or_0_def)

lemma reduce_amounts_Nil [simp]: "reduce_amounts [] = 0"
  by (simp add: reduce_amounts_def)

lemma foldl_unrounded:
  "unrounded s xs \<Longrightarrow>
   foldl (\<lambda>sum amount. js_add sum (Number amount)) s xs = s + of_int (sum_list xs) / 100"
proof (induction xs arbitrary: s)
  case Nil
  then show ?case by simp
next
  case (Cons a xs)
  from Cons.prems have a: "Number a = of_int a / 100"
    and b: "js_add s (Number a) = s + Number a"
    and c: "unrounded (js_add s (Number a)) xs"
    unfolding unrounded.simps by blast+
  have "foldl (\<lambda>sum amount. js_add sum (Number amount)) s (a # xs)
        = foldl (\<lambda>sum amount. js_add sum (Number amount)) (js_add s (Number a)) xs"
    by simp
  also have "\<dots> = js_add s (Number a) + of_int (sum_list xs) / 100"
    by (rule Cons.IH [OF c])
  also have "\<dots> = s + of_int (sum_list (a # xs)) / 100"
    using b by (simp add: a add_divide_distrib)
  finally show ?case .
qed

lemma reduce_amounts_unrounded:
  "unrounded 0 xs \<Longrightarrow> reduce_amounts xs = of_int (sum_list xs) / 100"
  using foldl_unrounded [of 0 xs] by (simp add: reduce_amounts_def)

lemma sum_list_mset_cong:
  assumes "mset xs = mset ys"
  shows "sum_list xs = sum_list (ys :: int list)"
proof -
  have "sum_mset (mset xs) = sum_mset (mset ys)"
    by (simp only: assms)
  then show ?thesis
    by (simp only: sum_mset_sum_list)
qed

lemma reduce_amounts_mset:
  assumes "mset xs = mset ys" and "unrounded 0 xs" and "unrounded 0 ys"
  shows "reduce_amounts xs = reduce_amounts ys"
proof -
  have "reduce_amounts xs = of_int (sum_list xs) / 100"
    by (rule reduce_amounts_unrounded [OF assms(2)])
  also have "sum_list xs = sum_list ys"
    by (rule sum_list_mset_cong [OF assms(1)])
  also have "of_int (sum_list ys) / 100 = reduce_amounts ys"
    by (rule reduce_amounts_unrounded [OF assms(3), symmetric])
  finally show ?thesis .
qed

lemma mset_debts_of:
  assumes "mset (debts db) = mset (debts db')"
  shows "mset (map de_amount (debts_of db i)) = mset (map de_amount (debts_of db' i))"
proof -
  have "mset (map de_amount (debts_of db i))
        = image_mset de_amount (filter_mset (\<lambda>x. de_debtor_id x = i) (mset (debts db)))"
    by (simp add: debts_of_def)
  also have "\<dots> = image_mset de_amount (filter_mset (\<lambda>x. de_debtor_id x = i) (mset (debts db')))"
    by (simp only: assms)
  also have "\<dots> = mset (map de_amount (debts_of db' i))"
    by (simp add: debts_of_def)
  finally show ?thesis .
qed

lemma mset_payments_of:
  assumes "mset (payments db) = mset (payments db')"
  shows "mset (map pa_amount (payments_of db i)) = mset (map pa_amount (payments_of db' i))"
proof -
  have "mset (map pa_amount (payments_of db i))
        = image_mset pa_amount (filter_mset (\<lambda>x. pa_debtor_id x = i) (mset (payments db)))"
    by (simp add: payments_of_def)
  also have "\<dots> = image_mset pa_amount (filter_mset (\<lambda>x. pa_debtor_id x = i) (mset (payments db')))"
    by (simp only: assms)
  also have "\<dots> = mset (map pa_amount (payments_of db' i))"
    by (simp add: payments_of_def)
  finally show ?thesis .
qed

lemma set_order_by_name [simp]: "set (order_by_name rows) = set rows"
  by (simp add: order_by_name_def)

lemma mset_order_desc [simp]: "mset (order_desc column rows) = mset rows"
  by (simp add: order_desc_def)

section \<open>Properties of the pages and of the store\<close>

subsection \<open>The listing and the search\<close>

lemma fetchDebtors_iff:
  "(d, t) \<in> set (fetchDebtors db) \<longleftrightarrow> d \<in> set (debtors db) \<and> (d, t) = with_totals db d"
  by (auto simp: fetchDebtors_def with_totals_def Let_def)

lemma snd_with_totals:
  "snd (with_totals db d) =
     \<lparr>total_debt = reduce_amounts (map de_amount (debts_of db (dr_id d))),
      total_paid = reduce_amounts (map pa_amount (payments_of db (dr_id d))),
      balance = js_sub (reduce_amounts (map de_amount (debts_of db (dr_id d))))
                       (reduce_amounts (map pa_amount (payments_of db (dr_id d))))\<rparr>"
  by (simp add: with_totals_def Let_def)

lemma fst_with_totals [simp]: "fst (with_totals db d) = d"
  by (simp add: with_totals_def Let_def)

lemma with_totals_cong:
  assumes "reduce_amounts (map de_amount (debts_of db (dr_id d)))
           = reduce_amounts (map de_amount (debts_of db' (dr_id d)))"
    and "reduce_amounts (map pa_amount (payments_of db (dr_id d)))
           = reduce_amounts (map pa_amount (payments_of db' (dr_id d)))"
  shows "with_totals db d = with_totals db' d"
  using assms by (simp add: with_totals_def Let_def)

lemma dh_totals_debtor_with_history:
  "dh_totals (debtor_with_history db d) =
     \<lparr>total_debt = reduce_amounts (map de_amount (order_desc de_date_recorded (debts_of db (dr_id d)))),
      total_paid = reduce_amounts (map pa_amount (order_desc pa_date_paid (payments_of db (dr_id d)))),
      balance = js_sub
        (reduce_amounts (map de_amount (order_desc de_date_recorded (debts_of db (dr_id d)))))
        (reduce_amounts (map pa_amount (order_desc pa_date_paid (payments_of db (dr_id d)))))\<rparr>"
  by (simp add: debtor_with_history_def Let_def)

lemma fetchDebtors_totals:
  assumes "(d, t) \<in> set (fetchDebtors db)"
  shows "t = \<lparr>total_debt = reduce_amounts (map de_amount (debts_of db (dr_id d))),
              total_paid = reduce_amounts (map pa_amount (payments_of db (dr_id d))),
              balance = js_sub (reduce_amounts (map de_amount (debts_of db (dr_id d))))
                               (reduce_amounts (map pa_amount (payments_of db (dr_id d))))\<rparr>"
proof -
  from assms have "(d, t) = with_totals db d"
    by (simp add: fetchDebtors_iff)
  then have "t = snd (with_totals db d)"
    by (metis snd_conv)
  then show ?thesis
    by (simp only: snd_with_totals)
qed

lemma single_Some_iff: "single rows = Some row \<longleftrightarrow> rows = [row]"
  by (simp add: single_def split: list.splits)

lemma single_None_iff: "single rows = None \<longleftrightarrow> length rows \<noteq> 1"
  by (simp add: single_def split: list.splits)

subsection \<open>The payment page\<close>


lemma dwb_with_balance:
  "dwb_id (with_balance db d) = dr_id d"
  "dwb_balance (with_balance db d)
   = js_sub (reduce_amounts (map de_amount (debts_of db (dr_id d))))
            (reduce_amounts (map pa_amount (payments_of db (dr_id d))))"
  by (simp_all add: with_balance_def Let_def)

lemma fetchDebtorsWithBalance_iff:
  "e \<in> set (fetchDebtorsWithBalance db)
   \<longleftrightarrow> (\<exists>d \<in> set (debtors db). e = with_balance db d) \<and> 0 < dwb_balance e"
  by (auto simp: fetchDebtorsWithBalance_def)


lemma listed_when_positive:
  assumes "d \<in> set (debtors db)" and "0 < dwb_balance (with_balance db d)"
  shows "\<exists>debtor. find (\<lambda>e. dwb_id e = dr_id d) (fetchDebtorsWithBalance db) = Some debtor"
proof -
  from assms have "with_balance db d \<in> set (fetchDebtorsWithBalance db)"
    unfolding fetchDebtorsWithBalance_iff by blast
  then have "find (\<lambda>e. dwb_id e = dr_id d) (fetchDebtorsWithBalance db) \<noteq> None"
    by (auto simp: find_None_iff dwb_with_balance)
  then show ?thesis
    by blast
qed

subsection \<open>Strings\<close>

lemma utf16_eq_Nil [simp]: "utf16 s = [] \<longleftrightarrow> s = []"
  by (simp add: utf16_def)

subsection \<open>The debtor form\<close>



lemma dropWhile_all_iff: "(\<forall>x \<in> set (dropWhile P s). P x) \<longleftrightarrow> dropWhile P s = []"
proof
  assume a: "\<forall>x \<in> set (dropWhile P s). P x"
  show "dropWhile P s = []"
  proof (rule ccontr)
    assume n: "dropWhile P s \<noteq> []"
    then have "\<not> P (hd (dropWhile P s))"
      by (rule hd_dropWhile)
    moreover from n have "hd (dropWhile P s) \<in> set (dropWhile P s)"
      by (rule hd_in_set)
    ultimately show False
      using a by blast
  qed
next
  assume "dropWhile P s = []"
  then show "\<forall>x \<in> set (dropWhile P s). P x"
    by (simp only: list.set ball_empty)
qed

lemma trim_Nil_iff: "trim s = [] \<longleftrightarrow> list_all is_white_space s"
proof -
  let ?u = "dropWhile is_white_space s"
  have "trim s = [] \<longleftrightarrow> dropWhile is_white_space (rev ?u) = []"
    by (simp only: trim_def rev_is_Nil_conv)
  also have "\<dots> \<longleftrightarrow> (\<forall>x \<in> set ?u. is_white_space x)"
    by (simp only: dropWhile_eq_Nil_conv set_rev)
  also have "\<dots> \<longleftrightarrow> ?u = []"
    by (rule dropWhile_all_iff)
  also have "\<dots> \<longleftrightarrow> list_all is_white_space s"
    by (simp only: dropWhile_eq_Nil_conv list_all_iff)
  finally show ?thesis .
qed


subsection \<open>Deleting a debtor\<close>

lemma delete_nothing:
  "\<not> admins_can_delete db session \<Longrightarrow> delete_debtors session i db = Inr db"
  by (simp add: delete_debtors_def)

lemma not_insert_not_delete:
  "\<not> admins_and_staff_can_insert db session \<Longrightarrow> \<not> admins_can_delete db session"
  by (simp add: admins_and_staff_can_insert_def admins_can_delete_def split: option.splits)

lemma delete_debtors_admin:
  assumes "admins_can_delete db session" and "i \<in> set (map dr_id (debtors db))"
  shows "delete_debtors session i db
     = Inr (db\<lparr>debtors := filter (\<lambda>d. dr_id d \<noteq> i) (debtors db),
               debts := filter (\<lambda>x. de_debtor_id x \<noteq> i) (debts db),
               payments := filter (\<lambda>x. pa_debtor_id x \<noteq> i) (payments db)\<rparr>)"
proof -
  from assms(2) have "set (map dr_id (filter (\<lambda>d. dr_id d = i) (debtors db))) = {i}"
    by auto
  with assms(1) show ?thesis
    by (simp add: delete_debtors_def)
qed

lemma delete_debtors_absent:
  assumes "i \<notin> set (map dr_id (debtors db))"
  shows "delete_debtors session i db = Inr db"
proof -
  from assms have "filter (\<lambda>d. dr_id d = i \<and> admins_can_delete db session) (debtors db) = []"
    by (auto simp: filter_empty_conv)
  then show ?thesis
    by (simp add: delete_debtors_def)
qed

subsection \<open>The delete of a debtor, step by step\<close>

lemma visible_not_committed: "status \<noteq> committed \<Longrightarrow> visible status rows = map fst rows"
  by (simp add: visible_def)

lemma visible_committed:
  "list_all (\<lambda>v. snd v = P (fst v)) rows
   \<Longrightarrow> visible committed rows = filter (\<lambda>r. \<not> P r) (map fst rows)"
  by (induction rows) (auto simp: visible_def)

lemma marked_filter:
  "list_all (\<lambda>v. snd v = P (fst v)) rows \<Longrightarrow> map fst (filter snd rows) = filter P (map fst rows)"
  by (induction rows) auto

lemma map_fst_mark:
  "k < length rows \<Longrightarrow> rows ! k = (r, m) \<Longrightarrow> map fst (rows[k := (r, m')]) = map fst rows"
  by (simp add: map_update list_update_same_conv)

lemma list_all_mark:
  "list_all Q rows \<Longrightarrow> Q (r, m') \<Longrightarrow> list_all Q (rows[k := (r, m')])"
  using set_update_subset_insert [of rows k "(r, m')"] by (auto simp: list_all_iff)

lemma unmarked_mark:
  assumes "k < length rows" and "rows ! k = (r, False)"
  shows "Suc (length (filter (\<lambda>v. \<not> snd v) (rows[k := (r, True)])))
         = length (filter (\<lambda>v. \<not> snd v) rows)"
proof -
  let ?P = "\<lambda>v :: 'a \<times> bool. \<not> snd v"
  have e: "rows = take k rows @ rows ! k # drop (Suc k) rows"
    by (rule id_take_nth_drop [OF assms(1)])
  have "filter ?P rows = filter ?P (take k rows @ rows ! k # drop (Suc k) rows)"
    by (rule arg_cong [OF e])
  also have "\<dots> = filter ?P (take k rows) @ (r, False) # filter ?P (drop (Suc k) rows)"
    by (simp add: assms(2))
  finally have 1: "length (filter ?P rows)
      = Suc (length (filter ?P (take k rows)) + length (filter ?P (drop (Suc k) rows)))"
    by simp
  from assms(1) have "rows[k := (r, True)] = take k rows @ (r, True) # drop (Suc k) rows"
    by (simp add: upd_conv_take_nth_drop)
  then have "length (filter ?P (rows[k := (r, True)]))
      = length (filter ?P (take k rows)) + length (filter ?P (drop (Suc k) rows))"
    by simp
  with 1 show ?thesis
    by simp
qed

lemma marked_ids_mono:
  assumes "k < length (dl_debtors s)" and "dl_debtors s ! k = (d, False)"
  shows "set (marked_ids s) \<subseteq> set (marked_ids (s\<lparr>dl_debtors := (dl_debtors s)[k := (d, True)]\<rparr>))"
proof
  fix x assume "x \<in> set (marked_ids s)"
  then obtain v where v: "v \<in> set (dl_debtors s)" "snd v" "x = dr_id (fst v)"
    by (auto simp: marked_ids_def)
  from v(1) obtain j where j: "j < length (dl_debtors s)" "dl_debtors s ! j = v"
    by (auto simp: in_set_conv_nth)
  with v(2) assms(2) have "j \<noteq> k"
    by auto
  with j have "(dl_debtors s)[k := (d, True)] ! j = v"
    by simp
  with j(1) have "v \<in> set ((dl_debtors s)[k := (d, True)])"
    by (metis length_list_update nth_mem)
  with v show "x \<in> set (marked_ids (s\<lparr>dl_debtors := (dl_debtors s)[k := (d, True)]\<rparr>))"
    by (auto simp: marked_ids_def)
qed


lemma marked_ids_same [simp]:
  "marked_ids (s\<lparr>dl_debts := x\<rparr>) = marked_ids s"
  "marked_ids (s\<lparr>dl_payments := y\<rparr>) = marked_ids s"
  "marked_ids (s\<lparr>dl_status := z\<rparr>) = marked_ids s"
  by (simp_all add: marked_ids_def)

lemma list_all_mono:
  "list_all P rows \<Longrightarrow> (\<And>v. P v \<Longrightarrow> Q v) \<Longrightarrow> list_all Q rows"
  by (auto simp: list_all_iff)

lemma sound_start: "sound_marks db session i (start_delete db)"
  by (simp add: sound_marks_def start_delete_def list_all_iff comp_def)

lemma sound_step:
  assumes "sound_marks db session i s" and "delete_step db session i s s'"
  shows "sound_marks db session i s'"
proof -
  from assms(1) have rows: "map fst (dl_debtors s) = debtors db"
    "map fst (dl_debts s) = debts db" "map fst (dl_payments s) = payments db"
    and a: "list_all (\<lambda>v. snd v \<longrightarrow> dr_id (fst v) = i \<and> admins_can_delete db session) (dl_debtors s)"
    and b: "list_all (\<lambda>v. snd v \<longrightarrow> de_debtor_id (fst v) \<in> set (marked_ids s)) (dl_debts s)"
    and c: "list_all (\<lambda>v. snd v \<longrightarrow> pa_debtor_id (fst v) \<in> set (marked_ids s)) (dl_payments s)"
    unfolding sound_marks_def by blast+
  from assms(2) show ?thesis
  proof cases
    case (delete_row k d)
    note mono = marked_ids_mono [OF delete_row(3,4)]
    have 1: "map fst ((dl_debtors s)[k := (d, True)]) = debtors db"
      using map_fst_mark [OF delete_row(3,4)] rows(1) by simp
    have 2: "list_all (\<lambda>v. snd v \<longrightarrow> dr_id (fst v) = i \<and> admins_can_delete db session)
        ((dl_debtors s)[k := (d, True)])"
      using a delete_row(5,6) by (intro list_all_mark) simp_all
    have 3: "list_all (\<lambda>v. snd v \<longrightarrow> de_debtor_id (fst v) \<in> set (marked_ids s')) (dl_debts s)"
      using b mono unfolding delete_row(1) by (auto simp: list_all_iff)
    have 4: "list_all (\<lambda>v. snd v \<longrightarrow> pa_debtor_id (fst v) \<in> set (marked_ids s')) (dl_payments s)"
      using c mono unfolding delete_row(1) by (auto simp: list_all_iff)
    have 5: "dl_debts s' = dl_debts s" "dl_payments s' = dl_payments s"
      "dl_debtors s' = (dl_debtors s)[k := (d, True)]" "dl_status s' = in_progress"
      by (simp_all add: delete_row(1,2))
    show ?thesis
      unfolding sound_marks_def using 1 2 3 4 rows(2,3) by (simp add: 5)
  next
    case (cascade_debt k x)
    have 1: "map fst ((dl_debts s)[k := (x, True)]) = debts db"
      using map_fst_mark [OF cascade_debt(3,4)] rows(2) by simp
    have 2: "list_all (\<lambda>v. snd v \<longrightarrow> de_debtor_id (fst v) \<in> set (marked_ids s))
        ((dl_debts s)[k := (x, True)])"
      using b cascade_debt(5) by (intro list_all_mark) simp_all
    show ?thesis
      unfolding sound_marks_def using 1 2 a c rows(1,3) cascade_debt(2)
      by (simp add: cascade_debt(1))
  next
    case (cascade_payment k x)
    have 1: "map fst ((dl_payments s)[k := (x, True)]) = payments db"
      using map_fst_mark [OF cascade_payment(3,4)] rows(3) by simp
    have 2: "list_all (\<lambda>v. snd v \<longrightarrow> pa_debtor_id (fst v) \<in> set (marked_ids s))
        ((dl_payments s)[k := (x, True)])"
      using c cascade_payment(5) by (intro list_all_mark) simp_all
    show ?thesis
      unfolding sound_marks_def using 1 2 a b rows(1,2) cascade_payment(2)
      by (simp add: cascade_payment(1))
  next
    case commit
    show ?thesis
      unfolding sound_marks_def using a b c rows commit(3)
      by (simp add: commit(1) nothing_left_def)
  next
    case abort
    show ?thesis
      unfolding sound_marks_def using a b c rows
      by (simp add: abort(1))
  qed
qed

lemma sound_reachable:
  assumes "deleting_from db session i s"
  shows "sound_marks db session i s"
  using assms unfolding deleting_from_def
proof (induction rule: rtranclp_induct)
  case base
  show ?case
    by (rule sound_start)
next
  case (step y z)
  from step.IH step.hyps(2) show ?case
    by (rule sound_step)
qed

lemma snapshot_uncommitted:
  assumes "sound_marks db session i s" and "dl_status s \<noteq> committed"
  shows "snapshot db s = db"
  using assms by (simp add: snapshot_def sound_marks_def visible_not_committed)

lemma list_all_both:
  "list_all (\<lambda>v. snd v \<longrightarrow> P v) rows \<Longrightarrow> list_all (\<lambda>v. P v \<longrightarrow> snd v) rows
   \<Longrightarrow> list_all (\<lambda>v. snd v = P v) rows"
  unfolding list_all_iff by blast

lemma snapshot_committed:
  assumes "sound_marks db session i s" and "dl_status s = committed"
  shows "Inr (snapshot db s) = delete_debtors session i db"
proof -
  let ?P = "\<lambda>d. dr_id d = i \<and> admins_can_delete db session"
  from assms(1) have rows: "map fst (dl_debtors s) = debtors db"
    "map fst (dl_debts s) = debts db" "map fst (dl_payments s) = payments db"
    and a: "list_all (\<lambda>v. snd v \<longrightarrow> dr_id (fst v) = i \<and> admins_can_delete db session) (dl_debtors s)"
    and b: "list_all (\<lambda>v. snd v \<longrightarrow> de_debtor_id (fst v) \<in> set (marked_ids s)) (dl_debts s)"
    and c: "list_all (\<lambda>v. snd v \<longrightarrow> pa_debtor_id (fst v) \<in> set (marked_ids s)) (dl_payments s)"
    and "dl_status s = committed \<longrightarrow> nothing_left db session i s"
    unfolding sound_marks_def by blast+
  with assms(2) have left: "nothing_left db session i s"
    by blast
  then have a': "list_all (\<lambda>v. dr_id (fst v) = i \<and> admins_can_delete db session \<longrightarrow> snd v) (dl_debtors s)"
    and b': "list_all (\<lambda>v. de_debtor_id (fst v) \<in> set (marked_ids s) \<longrightarrow> snd v) (dl_debts s)"
    and c': "list_all (\<lambda>v. pa_debtor_id (fst v) \<in> set (marked_ids s) \<longrightarrow> snd v) (dl_payments s)"
    unfolding nothing_left_def by blast+
  have d: "list_all (\<lambda>v. snd v = ?P (fst v)) (dl_debtors s)"
    by (rule list_all_both [OF a a'])
  have x: "list_all (\<lambda>v. snd v = (de_debtor_id (fst v) \<in> set (marked_ids s))) (dl_debts s)"
    by (rule list_all_both [OF b b'])
  have y: "list_all (\<lambda>v. snd v = (pa_debtor_id (fst v) \<in> set (marked_ids s))) (dl_payments s)"
    by (rule list_all_both [OF c c'])
  have "marked_ids s = map dr_id (map fst (filter snd (dl_debtors s)))"
    by (simp add: marked_ids_def comp_def)
  also have "map fst (filter snd (dl_debtors s)) = filter ?P (debtors db)"
    using marked_filter [OF d] rows(1) by simp
  finally have ids: "marked_ids s = map dr_id (filter ?P (debtors db))" .
  have "visible committed (dl_debtors s) = filter (\<lambda>d. \<not> ?P d) (debtors db)"
    using visible_committed [OF d] rows(1) by simp
  also have "\<dots> = filter (\<lambda>d. dr_id d \<notin> set (marked_ids s)) (debtors db)"
    by (rule filter_cong) (auto simp: ids)
  finally have 1: "visible committed (dl_debtors s)
      = filter (\<lambda>d. dr_id d \<notin> set (marked_ids s)) (debtors db)" .
  have 2: "visible committed (dl_debts s)
      = filter (\<lambda>x. de_debtor_id x \<notin> set (marked_ids s)) (debts db)"
    using visible_committed [OF x] rows(2) by simp
  have 3: "visible committed (dl_payments s)
      = filter (\<lambda>x. pa_debtor_id x \<notin> set (marked_ids s)) (payments db)"
    using visible_committed [OF y] rows(3) by simp
  have 4: "snapshot db s
      = db\<lparr>debtors := filter (\<lambda>d. dr_id d \<notin> set (marked_ids s)) (debtors db),
           debts := filter (\<lambda>x. de_debtor_id x \<notin> set (marked_ids s)) (debts db),
           payments := filter (\<lambda>x. pa_debtor_id x \<notin> set (marked_ids s)) (payments db)\<rparr>"
    unfolding snapshot_def assms(2) 1 2 3 ..
  have 5: "delete_debtors session i db
      = Inr (db\<lparr>debtors := filter (\<lambda>d. dr_id d \<notin> set (marked_ids s)) (debtors db),
           debts := filter (\<lambda>x. de_debtor_id x \<notin> set (marked_ids s)) (debts db),
           payments := filter (\<lambda>x. pa_debtor_id x \<notin> set (marked_ids s)) (payments db)\<rparr>)"
    unfolding delete_debtors_def Let_def ids ..
  show ?thesis
    unfolding 4 5 ..
qed


lemma not_list_allD:
  assumes "\<not> list_all (\<lambda>v. P (fst v) \<longrightarrow> snd v) rows"
  obtains k r where "k < length rows" and "rows ! k = (r, False)" and "P r"
proof -
  from assms obtain v where "v \<in> set rows" and "P (fst v)" and "\<not> snd v"
    unfolding list_all_iff by blast
  then obtain k where "k < length rows" and "rows ! k = v"
    by (auto simp: in_set_conv_nth)
  with \<open>P (fst v)\<close> \<open>\<not> snd v\<close> that [of k "fst v"] show thesis
    by (cases v) simp
qed

lemma one_more_step:
  assumes "dl_status s = in_progress" and "\<not> nothing_left db session i s"
  shows "\<exists>s1. delete_step db session i s s1 \<and> dl_status s1 = in_progress
           \<and> unmarked s1 < unmarked s"
proof -
  from assms(2) consider
    (debtor) "\<not> list_all (\<lambda>v. dr_id (fst v) = i \<and> admins_can_delete db session \<longrightarrow> snd v)
        (dl_debtors s)"
  | (debt) "\<not> list_all (\<lambda>v. de_debtor_id (fst v) \<in> set (marked_ids s) \<longrightarrow> snd v) (dl_debts s)"
  | (payment) "\<not> list_all (\<lambda>v. pa_debtor_id (fst v) \<in> set (marked_ids s) \<longrightarrow> snd v)
        (dl_payments s)"
    unfolding nothing_left_def by blast
  then show ?thesis
  proof cases
    case debtor
    then obtain k d where k: "k < length (dl_debtors s)" "dl_debtors s ! k = (d, False)"
      and d: "dr_id d = i \<and> admins_can_delete db session"
      by (rule not_list_allD)
    let ?s1 = "s\<lparr>dl_debtors := (dl_debtors s)[k := (d, True)]\<rparr>"
    from assms(1) k d have "delete_step db session i s ?s1"
      by (intro delete_row) simp_all
    moreover from unmarked_mark [OF k] have "unmarked ?s1 < unmarked s"
      by (simp add: unmarked_def)
    ultimately show ?thesis
      using assms(1) by (intro exI [of _ ?s1]) simp
  next
    case debt
    then obtain k x where k: "k < length (dl_debts s)" "dl_debts s ! k = (x, False)"
      and x: "de_debtor_id x \<in> set (marked_ids s)"
      by (rule not_list_allD)
    let ?s1 = "s\<lparr>dl_debts := (dl_debts s)[k := (x, True)]\<rparr>"
    from assms(1) k x have "delete_step db session i s ?s1"
      by (intro cascade_debt) simp_all
    moreover from unmarked_mark [OF k] have "unmarked ?s1 < unmarked s"
      by (simp add: unmarked_def)
    ultimately show ?thesis
      using assms(1) by (intro exI [of _ ?s1]) simp
  next
    case payment
    then obtain k x where k: "k < length (dl_payments s)" "dl_payments s ! k = (x, False)"
      and x: "pa_debtor_id x \<in> set (marked_ids s)"
      by (rule not_list_allD)
    let ?s1 = "s\<lparr>dl_payments := (dl_payments s)[k := (x, True)]\<rparr>"
    from assms(1) k x have "delete_step db session i s ?s1"
      by (intro cascade_payment) simp_all
    moreover from unmarked_mark [OF k] have "unmarked ?s1 < unmarked s"
      by (simp add: unmarked_def)
    ultimately show ?thesis
      using assms(1) by (intro exI [of _ ?s1]) simp
  qed
qed

lemma delete_completes:
  assumes "dl_status s = in_progress"
  shows "\<exists>s'. (delete_step db session i)\<^sup>*\<^sup>* s s' \<and> dl_status s' = committed"
  using assms
proof (induction "unmarked s" arbitrary: s rule: less_induct)
  case less
  show ?case
  proof (cases "nothing_left db session i s")
    case True
    with less.prems have "delete_step db session i s (s\<lparr>dl_status := committed\<rparr>)"
      by (rule delete_step.commit)
    then have "(delete_step db session i)\<^sup>*\<^sup>* s (s\<lparr>dl_status := committed\<rparr>)"
      by (rule r_into_rtranclp)
    then show ?thesis
      by (intro exI [of _ "s\<lparr>dl_status := committed\<rparr>"]) simp
  next
    case False
    with less.prems obtain s1 where s1: "delete_step db session i s s1"
      "dl_status s1 = in_progress" "unmarked s1 < unmarked s"
      using one_more_step by blast
    from less.hyps [OF s1(3) s1(2)] obtain s' where
      "(delete_step db session i)\<^sup>*\<^sup>* s1 s'" "dl_status s' = committed"
      by blast
    with s1(1) show ?thesis
      by (meson converse_rtranclp_into_rtranclp)
  qed
qed

section \<open>The example ledgers\<close>

lemma fetchDebtors_ledger_D:
  "fetchDebtors ledger_D = [(debtor_D, \<lparr>total_debt = 151 / 2, total_paid = 30, balance = 91 / 2\<rparr>)]"
  by (simp add: Let_def fetchDebtors_def with_totals_def ledger_D_def staff_and_viewer_def order_by_name_def
      debts_of_def payments_of_def debtor_D_def debt_of_D_def payment_of_D_def
      reduce_amounts_5000_2550 reduce_amounts_3000 js_sub_example)

lemma fetchDebtors_ledger_dimes:
  "fetchDebtors ledger_dimes =
     [(debtor_D, \<lparr>total_debt = 1351079888211149 / 2251799813685248, total_paid = 0,
                  balance = 1351079888211149 / 2251799813685248\<rparr>)]"
  by (simp add: Let_def fetchDebtors_def with_totals_def ledger_dimes_def staff_and_viewer_def
      order_by_name_def debts_of_def payments_of_def debtor_D_def debt_of_D_def
      reduce_amounts_10_20_30 fl_sum_10_20_30)

lemma fetchDebtors_ledger_dimes_reversed:
  "fetchDebtors ledger_dimes_reversed =
     [(debtor_D, \<lparr>total_debt = 5404319552844595 / 9007199254740992, total_paid = 0,
                  balance = 5404319552844595 / 9007199254740992\<rparr>)]"
  by (simp add: Let_def fetchDebtors_def with_totals_def ledger_dimes_reversed_def staff_and_viewer_def
      order_by_name_def debts_of_def payments_of_def debtor_D_def debt_of_D_def
      reduce_amounts_30_20_10 fl_sum_30_20_10)

lemma debtor_with_history_ledger_dimes:
  "dh_totals (debtor_with_history ledger_dimes debtor_D) =
     \<lparr>total_debt = 5404319552844595 / 9007199254740992, total_paid = 0,
      balance = 5404319552844595 / 9007199254740992\<rparr>"
  by (simp add: Let_def debtor_with_history_def ledger_dimes_def staff_and_viewer_def
      order_desc_def debts_of_def payments_of_def debtor_D_def debt_of_D_def
      reduce_amounts_30_20_10 fl_sum_30_20_10)

lemma ledger_D_rows:
  "debtors ledger_D = [debtor_D]"
  "map de_amount (debts_of ledger_D ''D'') = [5000, 2550]"
  "map pa_amount (payments_of ledger_D ''D'') = [3000]"
  "dr_id debtor_D = ''D''"
  by (simp_all add: ledger_D_def staff_and_viewer_def debts_of_def payments_of_def debt_of_D_def
      payment_of_D_def debtor_D_def)

lemma ledger_D_reversed_rows:
  "debtors ledger_D_reversed = [debtor_D]"
  "map de_amount (debts_of ledger_D_reversed ''D'') = [2550, 5000]"
  "map pa_amount (payments_of ledger_D_reversed ''D'') = [3000]"
  by (simp_all add: ledger_D_reversed_def ledger_D_def staff_and_viewer_def debts_of_def
      payments_of_def debt_of_D_def payment_of_D_def debtor_D_def)

lemma ledger_dimes_rows:
  "debtors ledger_dimes = [debtor_D]"
  "map de_amount (debts_of ledger_dimes ''D'') = [10, 20, 30]"
  "map pa_amount (payments_of ledger_dimes ''D'') = []"
  by (simp_all add: ledger_dimes_def staff_and_viewer_def debts_of_def payments_of_def debt_of_D_def
      debtor_D_def)

lemma ledger_D_E_rows:
  "debtors ledger_D_E = [debtor_D, debtor_E]"
  "debts_of ledger_D_E ''E'' = []"
  "payments_of ledger_D_E ''E'' = []"
  "debts_of ledger_D_E ''D'' = debts_of ledger_D ''D''"
  "payments_of ledger_D_E ''D'' = payments_of ledger_D ''D''"
  "dr_id debtor_E = ''E''"
  by (simp_all add: ledger_D_E_def ledger_D_def staff_and_viewer_def debts_of_def payments_of_def
      debt_of_D_def payment_of_D_def debtor_E_def)

lemma js_sub_sums_example:
  "js_sub (rat_of_int (sum_list [5000, 2550]) / 100) (rat_of_int (sum_list [3000]) / 100)
   = rat_of_int (sum_list [5000, 2550]) / 100 - rat_of_int (sum_list [3000]) / 100"
proof -
  have "js_sub (rat_of_int (sum_list [5000, 2550]) / 100) (rat_of_int (sum_list [3000]) / 100)
        = js_sub (151 / 2) 30"
    by simp
  also have "\<dots> = 91 / 2"
    by (rule js_sub_example)
  also have "\<dots> = rat_of_int (sum_list [5000, 2550]) / 100 - rat_of_int (sum_list [3000]) / 100"
    by simp
  finally show ?thesis .
qed

lemma handleSearch_ledger_dimes:
  "handleSearch name_or_phone_ilike (utf16 ''Dana'') ledger_dimes
   = Some (Some (debtor_with_history ledger_dimes debtor_D))"
proof -
  have "name_or_phone_ilike (utf16 ''Dana'') debtor_D"
    by code_simp
  moreover have "trim (utf16 ''Dana'') = utf16 ''Dana''"
    by code_simp
  ultimately show ?thesis
    by (simp add: handleSearch_def single_def ledger_dimes_rows)
qed

lemma ledger_dimes_reversed_sorted:
  "order_desc de_date_recorded (debts_of ledger_dimes_reversed ''D'')
   = debts_of ledger_dimes_reversed ''D''"
  "order_desc pa_date_paid (payments_of ledger_dimes_reversed ''D'')
   = payments_of ledger_dimes_reversed ''D''"
  by (simp_all add: ledger_dimes_reversed_def staff_and_viewer_def debts_of_def payments_of_def
      debt_of_D_def order_desc_def)

lemma ledger_D_sorted:
  "map de_amount (order_desc de_date_recorded (debts_of ledger_D ''D'')) = [2550, 5000]"
  "map pa_amount (order_desc pa_date_paid (payments_of ledger_D ''D'')) = [3000]"
  by (simp_all add: ledger_D_def staff_and_viewer_def debts_of_def payments_of_def
      debt_of_D_def payment_of_D_def order_desc_def)

lemma fetchDebtorsWithBalance_ledger_D:
  "fetchDebtorsWithBalance ledger_D =
     [\<lparr>dwb_id = ''D'', dwb_name = utf16 ''Dana'', dwb_phone_number = utf16 ''555-0001'', dwb_balance = 91 / 2\<rparr>]"
  by (simp add: Let_def fetchDebtorsWithBalance_def with_balance_def ledger_D_def staff_and_viewer_def
      order_by_name_def debts_of_def payments_of_def debtor_D_def debt_of_D_def payment_of_D_def
      reduce_amounts_5000_2550 reduce_amounts_3000 js_sub_example)

lemma staff_may_insert: "admins_and_staff_can_insert ledger_D (Some ''S'')"
  by (simp add: admins_and_staff_can_insert_def has_role_def ledger_D_def staff_and_viewer_def)

lemma numeric_100: "numeric_12_2 100 = Some 10000"
  by code_simp


lemma ledger_D_ids:
  "pa_id ` set (payments ledger_D) = {''p1''}"
  "dr_id ` set (debtors ledger_D) = {''D''}"
  "au_id ` set (auth_users ledger_D) = {''S'', ''V''}"
  by (auto simp: ledger_D_def staff_and_viewer_def debtor_D_def payment_of_D_def user_S_def
      user_V_def)

lemma matches_555:
  "name_or_phone_ilike (utf16 ''555'') debtor_D"
  "name_or_phone_ilike (utf16 ''555'') debtor_E"
  by code_simp+

lemma matches_Eli:
  "\<not> name_or_phone_ilike (utf16 ''eli'') debtor_D"
  "name_or_phone_ilike (utf16 ''eli'') debtor_E"
  by code_simp+

lemma trim_555: "trim (utf16 ''555'') = utf16 ''555''"
  by code_simp

lemma trim_eli: "trim (utf16 ''eli'') = utf16 ''eli''"
  by code_simp

lemma debtors_ledger_D_E: "debtors ledger_D_E = [debtor_D, debtor_E]"
  by (simp add: ledger_D_E_def)



lemma viewer_roles:
  "\<not> has_role ledger_A ''V'' admin"
  "\<not> has_role ledger_A ''V'' staff"
  "has_role ledger_A ''V'' viewer"
  "get_user_role ledger_A ''V'' = Some viewer"
  by (simp_all add: has_role_def get_user_role_def ledger_A_def)

lemma numeric_10: "numeric_12_2 10 = Some 1000"
  by code_simp

lemma admin_may_delete: "admins_can_delete ledger_A (Some ''A'')"
  by (simp add: admins_can_delete_def has_role_def ledger_A_def)

lemma ledger_A_debtors: "map dr_id (debtors ledger_A) = [''D'', ''E'']"
  by (simp add: ledger_A_def debtor_D_def debtor_E_def)

lemma start_delete_ledger_A:
  "start_delete ledger_A =
     \<lparr>dl_debtors = [(debtor_D, False), (debtor_E, False)],
      dl_debts = [(debt_of_D ''d1'' 5000 1, False), (debt_of_E, False),
                  (debt_of_D ''d2'' 2550 2, False)],
      dl_payments = [(payment_of_D ''p1'' 3000 3, False)],
      dl_status = in_progress\<rparr>"
  by (simp add: start_delete_def ledger_A_def)

lemma ids_D_E:
  "dr_id debtor_D = ''D''" "dr_id debtor_E = ''E''"
  "de_debtor_id (debt_of_D j a t) = ''D''" "de_debtor_id debt_of_E = ''E''"
  "pa_debtor_id (payment_of_D j a t) = ''D''"
  by (simp_all add: debtor_D_def debtor_E_def debt_of_D_def debt_of_E_def payment_of_D_def)

lemma half_deleted_reachable: "deleting_from ledger_A (Some ''A'') ''D'' half_deleted"
proof -
  let ?step = "delete_step ledger_A (Some ''A'') ''D''"
  let ?s0 = "start_delete ledger_A"
  let ?s1 = "?s0\<lparr>dl_debtors := (dl_debtors ?s0)[0 := (debtor_D, True)]\<rparr>"
  let ?s2 = "?s1\<lparr>dl_debts := (dl_debts ?s1)[0 := (debt_of_D ''d1'' 5000 1, True)]\<rparr>"
  have 1: "?step ?s0 ?s1"
  proof (rule delete_row)
    show "admins_can_delete ledger_A (Some ''A'')"
      by (rule admin_may_delete)
  qed (simp_all add: start_delete_ledger_A ids_D_E)
  have 2: "?step ?s1 ?s2"
    by (rule cascade_debt) (simp_all add: start_delete_ledger_A marked_ids_def ids_D_E)
  have 3: "?s2 = half_deleted"
    by (simp add: start_delete_ledger_A half_deleted_def)
  have "?step\<^sup>*\<^sup>* ?s0 ?s0"
    by (rule rtranclp.rtrancl_refl)
  from this 1 have "?step\<^sup>*\<^sup>* ?s0 ?s1"
    by (rule rtranclp.rtrancl_into_rtrancl)
  from this 2 have "?step\<^sup>*\<^sup>* ?s0 ?s2"
    by (rule rtranclp.rtrancl_into_rtrancl)
  then show ?thesis
    unfolding deleting_from_def 3 .
qed

lemma fully_deleted_reachable: "deleting_from ledger_A (Some ''A'') ''D'' fully_deleted"
proof -
  let ?step = "delete_step ledger_A (Some ''A'') ''D''"
  let ?s3 = "half_deleted\<lparr>dl_debts := (dl_debts half_deleted)[2 := (debt_of_D ''d2'' 2550 2, True)]\<rparr>"
  let ?s4 = "?s3\<lparr>dl_payments := (dl_payments ?s3)[0 := (payment_of_D ''p1'' 3000 3, True)]\<rparr>"
  let ?s5 = "?s4\<lparr>dl_status := committed\<rparr>"
  have 1: "?step half_deleted ?s3"
    by (rule cascade_debt) (simp_all add: half_deleted_def marked_ids_def ids_D_E)
  have 2: "?step ?s3 ?s4"
    by (rule cascade_payment) (simp_all add: half_deleted_def marked_ids_def ids_D_E)
  have 3: "?step ?s4 ?s5"
  proof (rule commit)
    show "nothing_left ledger_A (Some ''A'') ''D'' ?s4"
      by (simp add: half_deleted_def nothing_left_def marked_ids_def ids_D_E)
  qed (simp add: half_deleted_def)
  have 4: "?s5 = fully_deleted"
    by (simp add: half_deleted_def fully_deleted_def)
  from half_deleted_reachable have "?step\<^sup>*\<^sup>* (start_delete ledger_A) half_deleted"
    unfolding deleting_from_def .
  from this 1 have "?step\<^sup>*\<^sup>* (start_delete ledger_A) ?s3"
    by (rule rtranclp.rtrancl_into_rtrancl)
  from this 2 have "?step\<^sup>*\<^sup>* (start_delete ledger_A) ?s4"
    by (rule rtranclp.rtrancl_into_rtrancl)
  from this 3 have "?step\<^sup>*\<^sup>* (start_delete ledger_A) ?s5"
    by (rule rtranclp.rtrancl_into_rtrancl)
  then show ?thesis
    unfolding deleting_from_def 4 .
qed














lemma white_space_examples: "is_white_space 0xA0" "is_white_space 0x2003" "\<not> is_white_space 0x44"
  by code_simp+

section \<open>C1: a payment larger than the balance\<close>

text \<open>
  C1, counterexample. The claim says that a payment larger than the balance is
  recorded and accompanied by a warning. Debtor \<open>D\<close> has the balance 45.50; identity
  \<open>S\<close> has the role staff and submits a payment of 100.00 for \<open>D\<close> on the payment
  page. The page shows the error "Payment amount exceeds outstanding balance" and
  returns before the insert: the ledger is unchanged.
\<close>

theorem overpayment_is_blocked:
  "fetchDebtorsWithBalance ledger_D =
     [\<lparr>dwb_id = ''D'', dwb_name = utf16 ''Dana'', dwb_phone_number = utf16 ''555-0001'', dwb_balance = 91 / 2\<rparr>]
   \<and> admins_and_staff_can_insert ledger_D (Some ''S'')
   \<and> AddPaymentPage (Some staff) numeric_12_2 (Some ''S'') ''p2'' 4
         (fetchDebtorsWithBalance ledger_D) ''D'' (Num 100) ledger_D
       = (Error Payment_amount_exceeds_outstanding_balance, ledger_D)"
  by (simp add: fetchDebtorsWithBalance_ledger_D staff_may_insert AddPaymentPage_def may_enter_def
      AddPaymentPage_handleSubmit_def)

text \<open>
  C1, amended. When the amount of a submission on the payment page exceeds the balance
  that the page lists for the selected debtor, the page rejects the submission with
  the error "Payment amount exceeds outstanding balance" and inserts no payment row;
  there is no warning that accompanies a success. The store itself compares no
  balance: an insert into \<^verbatim>\<open>payments\<close> by an administrator or a member of staff, with
  a positive amount, a fresh id, an existing debtor and an existing creator, adds the
  row whatever the balance of the debtor is.
\<close>

theorem overpayment_is_rejected_by_the_entry_path:
  assumes "selectedDebtor \<noteq> []"
    and "find (\<lambda>d. dwb_id d = selectedDebtor) debtors' = Some debtor"
    and "js_gt amount (dwb_balance debtor)"
  shows "AddPaymentPage_handleSubmit to_numeric session new_id now debtors' selectedDebtor amount db
         = (Error Payment_amount_exceeds_outstanding_balance, db)
    \<and> (admins_and_staff_can_insert db (Some user) \<and> to_numeric a = Some c \<and> 0 < c
         \<and> new_id \<notin> set (map pa_id (payments db))
         \<and> selectedDebtor \<in> set (map dr_id (debtors db))
         \<and> user \<in> set (map au_id (auth_users db))
       \<longrightarrow> insert_payments to_numeric (Some user) new_id now
             \<lparr>pai_debtor_id = selectedDebtor, pai_amount = Some a, pai_created_by = user\<rparr> db
           = Inr (db\<lparr>payments := payments db @
                  [\<lparr>pa_id = new_id, pa_debtor_id = selectedDebtor, pa_amount = c,
                    pa_date_paid = now, pa_created_by = user, pa_created_at = now\<rparr>]\<rparr>))"
  using assms
  by (simp add: AddPaymentPage_handleSubmit_def insert_payments_def coerce_amount_def)

text \<open>
  Witness for C1: the submission of 100.00 against the listed balance 45.50 is
  rejected, and the same payment sent to the store directly is inserted.
\<close>

theorem overpayment_is_rejected_witness:
  "''D'' \<noteq> []
   \<and> find (\<lambda>d. dwb_id d = ''D'') (fetchDebtorsWithBalance ledger_D)
       = Some \<lparr>dwb_id = ''D'', dwb_name = utf16 ''Dana'', dwb_phone_number = utf16 ''555-0001'',
               dwb_balance = 91 / 2\<rparr>
   \<and> js_gt (Num 100) (91 / 2)
   \<and> AddPaymentPage_handleSubmit numeric_12_2 (Some ''S'') ''p2'' 4
         (fetchDebtorsWithBalance ledger_D) ''D'' (Num 100) ledger_D
       = (Error Payment_amount_exceeds_outstanding_balance, ledger_D)
   \<and> admins_and_staff_can_insert ledger_D (Some ''S'')
   \<and> numeric_12_2 100 = Some 10000
   \<and> ''p2'' \<notin> set (map pa_id (payments ledger_D))
   \<and> ''D'' \<in> set (map dr_id (debtors ledger_D))
   \<and> ''S'' \<in> set (map au_id (auth_users ledger_D))
   \<and> insert_payments numeric_12_2 (Some ''S'') ''p2'' 4
         \<lparr>pai_debtor_id = ''D'', pai_amount = Some 100, pai_created_by = ''S''\<rparr> ledger_D
       = Inr (ledger_D\<lparr>payments := payments ledger_D @
              [\<lparr>pa_id = ''p2'', pa_debtor_id = ''D'', pa_amount = 10000, pa_date_paid = 4,
                pa_created_by = ''S'', pa_created_at = 4\<rparr>]\<rparr>)"
proof -
  let ?debtor = "\<lparr>dwb_id = ''D'', dwb_name = utf16 ''Dana'', dwb_phone_number = utf16 ''555-0001'',
                  dwb_balance = 91 / 2\<rparr>"
  have 1: "''D'' \<noteq> []"
    by simp
  have 2: "find (\<lambda>d. dwb_id d = ''D'') (fetchDebtorsWithBalance ledger_D) = Some ?debtor"
    by (simp add: fetchDebtorsWithBalance_ledger_D)
  have 3: "js_gt (Num 100) (dwb_balance ?debtor)"
    by simp
  have 4: "admins_and_staff_can_insert ledger_D (Some ''S'')"
    "numeric_12_2 100 = Some 10000"
    "''p2'' \<notin> set (map pa_id (payments ledger_D))"
    "''D'' \<in> set (map dr_id (debtors ledger_D))"
    "''S'' \<in> set (map au_id (auth_users ledger_D))"
    by (simp_all add: staff_may_insert numeric_100 ledger_D_ids)
  from overpayment_is_rejected_by_the_entry_path
    [OF 1 2 3, where to_numeric = numeric_12_2 and session = "Some ''S''" and new_id = "''p2''"
      and now = 4 and db = ledger_D and user = "''S''" and a = 100 and c = 10000] 1 2 3 4
  show ?thesis
    by simp
qed

section \<open>C2: the search\<close>

text \<open>
  C2, counterexample. The claim says that a query matched by two or more debtors
  returns exactly one of them and never the result "not found". The ledger holds two
  debtors with the phone numbers 555-0001 and 555-0002; both match the query 555, and
  the search keeps \<^verbatim>\<open>null\<close>, which the page shows as "No debtor found with that name or
  phone number".
\<close>

theorem search_with_two_matches_finds_nothing:
  "filter (name_or_phone_ilike (utf16 ''555'')) (debtors ledger_D_E) = [debtor_D, debtor_E]
   \<and> handleSearch name_or_phone_ilike (utf16 ''555'') ledger_D_E = Some None"
  by (simp add: handleSearch_def single_def debtors_ledger_D_E matches_555 trim_555)

text \<open>
  C2, amended. For every query string, the search returns at most one debtor. It
  returns a debtor, with the history of that debtor, exactly when the query is not
  blank and exactly one debtor matches it; when no debtor or more than one debtor
  matches, the result is "not found". A query is blank, and starts no search, exactly
  when every code unit of it is white space.
\<close>

theorem search_returns_the_only_match:
  "(handleSearch matches searchTerm db = Some (Some result)
      \<longleftrightarrow> trim searchTerm \<noteq> []
          \<and> (\<exists>debtorData. filter (matches searchTerm) (debtors db) = [debtorData]
                \<and> result = debtor_with_history db debtorData))
   \<and> (trim searchTerm \<noteq> [] \<and> length (filter (matches searchTerm) (debtors db)) \<noteq> 1
        \<longrightarrow> handleSearch matches searchTerm db = Some None)
   \<and> (handleSearch matches searchTerm db = None \<longleftrightarrow> trim searchTerm = [])
   \<and> (trim searchTerm = [] \<longleftrightarrow> list_all is_white_space searchTerm)"
proof -
  have 1: "handleSearch matches searchTerm db = Some (Some result)
      \<longleftrightarrow> trim searchTerm \<noteq> []
          \<and> (\<exists>debtorData. filter (matches searchTerm) (debtors db) = [debtorData]
                \<and> result = debtor_with_history db debtorData)"
    by (auto simp: handleSearch_def single_Some_iff single_None_iff split: option.splits)
  have 2: "handleSearch matches searchTerm db = Some None"
    if "trim searchTerm \<noteq> [] \<and> length (filter (matches searchTerm) (debtors db)) \<noteq> 1"
    using that by (simp add: handleSearch_def single_None_iff split: option.splits)
  have 3: "handleSearch matches searchTerm db = None \<longleftrightarrow> trim searchTerm = []"
    by (simp add: handleSearch_def split: option.splits)
  have 4: "trim searchTerm = [] \<longleftrightarrow> list_all is_white_space searchTerm"
    by (rule trim_Nil_iff)
  from 1 2 3 4 show ?thesis
    by blast
qed

text \<open>
  Witness for C2: the query "eli" is matched by debtor \<open>E\<close> alone and returns \<open>E\<close>
  with its history; the query 555 is matched by two debtors and returns "not found";
  the query of a no-break space and a space is blank and starts no search.
\<close>

theorem search_returns_the_only_match_witness:
  "trim (utf16 ''eli'') \<noteq> []
   \<and> filter (name_or_phone_ilike (utf16 ''eli'')) (debtors ledger_D_E) = [debtor_E]
   \<and> handleSearch name_or_phone_ilike (utf16 ''eli'') ledger_D_E
       = Some (Some (debtor_with_history ledger_D_E debtor_E))
   \<and> trim (utf16 ''555'') \<noteq> []
   \<and> length (filter (name_or_phone_ilike (utf16 ''555'')) (debtors ledger_D_E)) \<noteq> 1
   \<and> handleSearch name_or_phone_ilike (utf16 ''555'') ledger_D_E = Some None
   \<and> list_all is_white_space [0xA0, 0x20]
   \<and> handleSearch name_or_phone_ilike [0xA0, 0x20] ledger_D_E = None"
proof -
  have 1: "trim (utf16 ''eli'') \<noteq> []" "trim (utf16 ''555'') \<noteq> []"
    by (simp_all add: trim_eli trim_555)
  have 2: "filter (name_or_phone_ilike (utf16 ''eli'')) (debtors ledger_D_E) = [debtor_E]"
    by (simp add: debtors_ledger_D_E matches_Eli)
  have 3: "length (filter (name_or_phone_ilike (utf16 ''555'')) (debtors ledger_D_E)) \<noteq> 1"
    by (simp add: debtors_ledger_D_E matches_555)
  note inst = search_returns_the_only_match [where matches = name_or_phone_ilike and db = ledger_D_E]
  from inst [where searchTerm = "utf16 ''eli''"
      and result = "debtor_with_history ledger_D_E debtor_E", THEN conjunct1] 1 2
  have 4: "handleSearch name_or_phone_ilike (utf16 ''eli'') ledger_D_E
       = Some (Some (debtor_with_history ledger_D_E debtor_E))"
    by blast
  from inst [where searchTerm = "utf16 ''555''"
      and result = "debtor_with_history ledger_D_E debtor_E", THEN conjunct2, THEN conjunct1] 1 3
  have 5: "handleSearch name_or_phone_ilike (utf16 ''555'') ledger_D_E = Some None"
    by blast
  have 6: "list_all is_white_space [0xA0, 0x20]"
    by (simp add: white_space_examples is_white_space_def)
  from inst [where searchTerm = "[0xA0, 0x20]"
      and result = "debtor_with_history ledger_D_E debtor_E", THEN conjunct2, THEN conjunct2] 6
  have 7: "handleSearch name_or_phone_ilike [0xA0, 0x20] ledger_D_E = None"
    by blast
  from 1 2 3 4 5 6 7 show ?thesis
    by blast
qed

section \<open>C3: the order of summation\<close>

text \<open>
  C3, counterexample. The claim says that the totals do not depend on the order in
  which the amounts are summed. The two ledgers hold the same debtor and the same
  three debts of 0.10, 0.20 and 0.30; the store returns the debts in opposite orders.
  The listing computes the total debt 0.6000000000000001 from one and 0.6 from the
  other: the amounts are added as binary floating-point numbers.
\<close>

theorem summation_order_changes_the_totals:
  "debtors ledger_dimes = debtors ledger_dimes_reversed
   \<and> mset (debts ledger_dimes) = mset (debts ledger_dimes_reversed)
   \<and> mset (payments ledger_dimes) = mset (payments ledger_dimes_reversed)
   \<and> fetchDebtors ledger_dimes =
       [(debtor_D, \<lparr>total_debt = 1351079888211149 / 2251799813685248, total_paid = 0,
                    balance = 1351079888211149 / 2251799813685248\<rparr>)]
   \<and> fetchDebtors ledger_dimes_reversed =
       [(debtor_D, \<lparr>total_debt = 5404319552844595 / 9007199254740992, total_paid = 0,
                    balance = 5404319552844595 / 9007199254740992\<rparr>)]
   \<and> fetchDebtors ledger_dimes \<noteq> fetchDebtors ledger_dimes_reversed"
  by (simp add: fetchDebtors_ledger_dimes fetchDebtors_ledger_dimes_reversed)
    (simp add: ledger_dimes_def ledger_dimes_reversed_def)

text \<open>
  C3, amended. For two ledgers with the same debtors and the same debt and payment
  rows in any order, the listing computes the same totals and balances whenever no
  step of the summations rounds, in either order. The amounts are aggregated in
  binary floating point, not in decimal arithmetic.
\<close>

theorem totals_independent_of_order_when_unrounded:
  assumes "debtors db = debtors db'"
    and "mset (debts db) = mset (debts db')"
    and "mset (payments db) = mset (payments db')"
    and "\<forall>d \<in> set (debtors db).
           unrounded 0 (map de_amount (debts_of db (dr_id d)))
           \<and> unrounded 0 (map de_amount (debts_of db' (dr_id d)))
           \<and> unrounded 0 (map pa_amount (payments_of db (dr_id d)))
           \<and> unrounded 0 (map pa_amount (payments_of db' (dr_id d)))"
  shows "fetchDebtors db = fetchDebtors db'"
proof -
  have "with_totals db d = with_totals db' d" if "d \<in> set (debtors db)" for d
  proof (rule with_totals_cong)
    from that assms(4) have u: "unrounded 0 (map de_amount (debts_of db (dr_id d)))"
      "unrounded 0 (map de_amount (debts_of db' (dr_id d)))"
      "unrounded 0 (map pa_amount (payments_of db (dr_id d)))"
      "unrounded 0 (map pa_amount (payments_of db' (dr_id d)))"
      by blast+
    show "reduce_amounts (map de_amount (debts_of db (dr_id d)))
          = reduce_amounts (map de_amount (debts_of db' (dr_id d)))"
      by (rule reduce_amounts_mset [OF mset_debts_of [OF assms(2)] u(1) u(2)])
    show "reduce_amounts (map pa_amount (payments_of db (dr_id d)))
          = reduce_amounts (map pa_amount (payments_of db' (dr_id d)))"
      by (rule reduce_amounts_mset [OF mset_payments_of [OF assms(3)] u(3) u(4)])
  qed
  then have "map (with_totals db) (order_by_name (debtors db))
             = map (with_totals db') (order_by_name (debtors db))"
    by simp
  then show ?thesis
    by (simp add: fetchDebtors_def assms(1))
qed

text \<open>
  Witness for C3: the debts 50.00 and 25.50 and the payment 30.00 of debtor \<open>D\<close>,
  with the two debts in either order.
\<close>

theorem totals_independent_of_order_witness:
  "debtors ledger_D = debtors ledger_D_reversed
   \<and> mset (debts ledger_D) = mset (debts ledger_D_reversed)
   \<and> debts ledger_D \<noteq> debts ledger_D_reversed
   \<and> mset (payments ledger_D) = mset (payments ledger_D_reversed)
   \<and> set (debtors ledger_D) = {debtor_D}
   \<and> unrounded 0 (map de_amount (debts_of ledger_D (dr_id debtor_D)))
   \<and> unrounded 0 (map de_amount (debts_of ledger_D_reversed (dr_id debtor_D)))
   \<and> unrounded 0 (map pa_amount (payments_of ledger_D (dr_id debtor_D)))
   \<and> unrounded 0 (map pa_amount (payments_of ledger_D_reversed (dr_id debtor_D)))
   \<and> fetchDebtors ledger_D = fetchDebtors ledger_D_reversed"
proof -
  have 1: "debtors ledger_D = debtors ledger_D_reversed"
    by (simp add: ledger_D_rows ledger_D_reversed_rows)
  have 2: "mset (debts ledger_D) = mset (debts ledger_D_reversed)"
    by (simp add: ledger_D_reversed_def ledger_D_def)
  have 3: "mset (payments ledger_D) = mset (payments ledger_D_reversed)"
    by (simp add: ledger_D_reversed_def ledger_D_def)
  have 4: "\<forall>d \<in> set (debtors ledger_D).
         unrounded 0 (map de_amount (debts_of ledger_D (dr_id d)))
         \<and> unrounded 0 (map de_amount (debts_of ledger_D_reversed (dr_id d)))
         \<and> unrounded 0 (map pa_amount (payments_of ledger_D (dr_id d)))
         \<and> unrounded 0 (map pa_amount (payments_of ledger_D_reversed (dr_id d)))"
    by (simp add: ledger_D_rows ledger_D_reversed_rows unrounded_5000_2550 unrounded_2550_5000
        unrounded_3000)
  have 5: "debts ledger_D \<noteq> debts ledger_D_reversed"
    by (simp add: ledger_D_reversed_def ledger_D_def debt_of_D_def)
  have 6: "set (debtors ledger_D) = {debtor_D}"
    by (simp add: ledger_D_rows)
  from 4 6 have 7: "unrounded 0 (map de_amount (debts_of ledger_D (dr_id debtor_D)))
         \<and> unrounded 0 (map de_amount (debts_of ledger_D_reversed (dr_id debtor_D)))
         \<and> unrounded 0 (map pa_amount (payments_of ledger_D (dr_id debtor_D)))
         \<and> unrounded 0 (map pa_amount (payments_of ledger_D_reversed (dr_id debtor_D)))"
    by blast
  from totals_independent_of_order_when_unrounded [OF 1 2 3 4] 1 2 3 5 6 7 show ?thesis
    by blast
qed

section \<open>C4: the balance computed on read\<close>

text \<open>
  C4, counterexample. The claim says that the computed totals are exactly the sums of
  the amounts. Debtor \<open>D\<close> of the ledger has the debts 0.10, 0.20 and 0.30 and no
  payment: the sum is 0.60, and the listing computes the total debt and the balance
  0.6000000000000001 (the double 1351079888211149 / 2251799813685248).
\<close>

theorem computed_total_differs_from_sum:
  "fetchDebtors ledger_dimes =
     [(debtor_D, \<lparr>total_debt = 1351079888211149 / 2251799813685248, total_paid = 0,
                  balance = 1351079888211149 / 2251799813685248\<rparr>)]
   \<and> rat_of_int (sum_list (map de_amount (debts_of ledger_dimes (dr_id debtor_D)))) / 100 = 3 / 5
   \<and> rat_of_int (sum_list (map pa_amount (payments_of ledger_dimes (dr_id debtor_D)))) / 100 = 0
   \<and> (1351079888211149 / 2251799813685248 :: rat) \<noteq> 3 / 5"
  by (simp add: fetchDebtors_ledger_dimes ledger_dimes_rows debtor_D_def)

text \<open>
  C4, amended. For every debtor of the listing, the total debt and the total paid are
  the amounts of that debtor's debts and payments, each read as a double and added
  from left to right in double arithmetic, and the balance is their double
  difference. A debtor with no debt and no payment has the totals 0, 0, 0. Whenever
  no step of the computation rounds, the three results are exactly the sum of the
  debt amounts, the sum of the payment amounts and their difference. The search
  computes its totals by the same additions over the rows sorted by date.
\<close>

theorem balance_computed_on_read:
  assumes "(d, t) \<in> set (fetchDebtors db)"
  shows "total_debt t = reduce_amounts (map de_amount (debts_of db (dr_id d)))
    \<and> total_paid t = reduce_amounts (map pa_amount (payments_of db (dr_id d)))
    \<and> balance t = js_sub (total_debt t) (total_paid t)
    \<and> (debts_of db (dr_id d) = [] \<and> payments_of db (dr_id d) = []
         \<longrightarrow> t = \<lparr>total_debt = 0, total_paid = 0, balance = 0\<rparr>)
    \<and> (unrounded 0 (map de_amount (debts_of db (dr_id d)))
         \<and> unrounded 0 (map pa_amount (payments_of db (dr_id d)))
         \<and> js_sub (of_int (sum_list (map de_amount (debts_of db (dr_id d)))) / 100)
                   (of_int (sum_list (map pa_amount (payments_of db (dr_id d)))) / 100)
             = of_int (sum_list (map de_amount (debts_of db (dr_id d)))) / 100
               - of_int (sum_list (map pa_amount (payments_of db (dr_id d)))) / 100
         \<longrightarrow> t = \<lparr>total_debt = of_int (sum_list (map de_amount (debts_of db (dr_id d)))) / 100,
                   total_paid = of_int (sum_list (map pa_amount (payments_of db (dr_id d)))) / 100,
                   balance = of_int (sum_list (map de_amount (debts_of db (dr_id d)))) / 100
                     - of_int (sum_list (map pa_amount (payments_of db (dr_id d)))) / 100\<rparr>)
    \<and> total_debt (dh_totals (debtor_with_history db d))
        = reduce_amounts (map de_amount (order_desc de_date_recorded (debts_of db (dr_id d))))
    \<and> total_paid (dh_totals (debtor_with_history db d))
        = reduce_amounts (map pa_amount (order_desc pa_date_paid (payments_of db (dr_id d))))
    \<and> balance (dh_totals (debtor_with_history db d))
        = js_sub (total_debt (dh_totals (debtor_with_history db d)))
                 (total_paid (dh_totals (debtor_with_history db d)))"
proof -
  note t = fetchDebtors_totals [OF assms]
  have 1: "total_debt t = reduce_amounts (map de_amount (debts_of db (dr_id d)))"
    and 2: "total_paid t = reduce_amounts (map pa_amount (payments_of db (dr_id d)))"
    and 3: "balance t = js_sub (total_debt t) (total_paid t)"
    by (subst t, simp)+
  have 4: "t = \<lparr>total_debt = 0, total_paid = 0, balance = 0\<rparr>"
    if "debts_of db (dr_id d) = [] \<and> payments_of db (dr_id d) = []"
    using that by (subst t) simp
  have 5: "t = \<lparr>total_debt = of_int (sum_list (map de_amount (debts_of db (dr_id d)))) / 100,
                   total_paid = of_int (sum_list (map pa_amount (payments_of db (dr_id d)))) / 100,
                   balance = of_int (sum_list (map de_amount (debts_of db (dr_id d)))) / 100
                     - of_int (sum_list (map pa_amount (payments_of db (dr_id d)))) / 100\<rparr>"
    if "unrounded 0 (map de_amount (debts_of db (dr_id d)))
         \<and> unrounded 0 (map pa_amount (payments_of db (dr_id d)))
         \<and> js_sub (of_int (sum_list (map de_amount (debts_of db (dr_id d)))) / 100)
                   (of_int (sum_list (map pa_amount (payments_of db (dr_id d)))) / 100)
             = of_int (sum_list (map de_amount (debts_of db (dr_id d)))) / 100
               - of_int (sum_list (map pa_amount (payments_of db (dr_id d)))) / 100"
    using that by (subst t) (simp add: reduce_amounts_unrounded)
  have 6: "total_debt (dh_totals (debtor_with_history db d))
        = reduce_amounts (map de_amount (order_desc de_date_recorded (debts_of db (dr_id d))))"
    and 7: "total_paid (dh_totals (debtor_with_history db d))
        = reduce_amounts (map pa_amount (order_desc pa_date_paid (payments_of db (dr_id d))))"
    and 8: "balance (dh_totals (debtor_with_history db d))
        = js_sub (total_debt (dh_totals (debtor_with_history db d)))
                 (total_paid (dh_totals (debtor_with_history db d)))"
    by (simp_all add: dh_totals_debtor_with_history)
  from 1 2 3 4 5 6 7 8 show ?thesis
    by blast
qed

text \<open>
  Witness for C4: debtor \<open>D\<close> with the debts 50.00 and 25.50 and the payment 30.00 has
  the totals 75.50, 30.00 and 45.50, exactly the sums; debtor \<open>E\<close>, with no debt and
  no payment, has the totals 0, 0, 0.
\<close>

theorem balance_computed_on_read_witness:
  "(debtor_D, \<lparr>total_debt = 151 / 2, total_paid = 30, balance = 91 / 2\<rparr>)
     \<in> set (fetchDebtors ledger_D)
   \<and> map de_amount (debts_of ledger_D (dr_id debtor_D)) = [5000, 2550]
   \<and> map pa_amount (payments_of ledger_D (dr_id debtor_D)) = [3000]
   \<and> unrounded 0 [5000, 2550]
   \<and> unrounded 0 [3000]
   \<and> js_sub (rat_of_int (sum_list [5000, 2550]) / 100) (rat_of_int (sum_list [3000]) / 100)
       = rat_of_int (sum_list [5000, 2550]) / 100 - rat_of_int (sum_list [3000]) / 100
   \<and> \<lparr>total_debt = 151 / 2, total_paid = 30, balance = 91 / 2\<rparr>
       = \<lparr>total_debt = rat_of_int (sum_list [5000, 2550]) / 100,
          total_paid = rat_of_int (sum_list [3000]) / 100,
          balance = rat_of_int (sum_list [5000, 2550]) / 100 - rat_of_int (sum_list [3000]) / 100\<rparr>
   \<and> debts_of ledger_D_E (dr_id debtor_E) = []
   \<and> payments_of ledger_D_E (dr_id debtor_E) = []
   \<and> (debtor_E, \<lparr>total_debt = 0, total_paid = 0, balance = 0\<rparr>) \<in> set (fetchDebtors ledger_D_E)"
proof -
  let ?t = "\<lparr>total_debt = 151 / 2, total_paid = 30, balance = 91 / 2\<rparr> :: totals"
  have m: "(debtor_D, ?t) \<in> set (fetchDebtors ledger_D)"
    by (simp add: fetchDebtors_ledger_D)
  have rows: "map de_amount (debts_of ledger_D (dr_id debtor_D)) = [5000, 2550]"
    "map pa_amount (payments_of ledger_D (dr_id debtor_D)) = [3000]"
    by (simp_all add: ledger_D_rows)
  note u = unrounded_5000_2550 unrounded_3000 js_sub_sums_example
  from balance_computed_on_read [OF m] rows u
  have exact: "?t = \<lparr>total_debt = rat_of_int (sum_list [5000, 2550]) / 100,
          total_paid = rat_of_int (sum_list [3000]) / 100,
          balance = rat_of_int (sum_list [5000, 2550]) / 100 - rat_of_int (sum_list [3000]) / 100\<rparr>"
    by (simp only:)
  have none: "debts_of ledger_D_E (dr_id debtor_E) = []" "payments_of ledger_D_E (dr_id debtor_E) = []"
    by (simp_all add: ledger_D_E_rows)
  have "(debtor_E, snd (with_totals ledger_D_E debtor_E)) \<in> set (fetchDebtors ledger_D_E)"
    by (simp add: fetchDebtors_iff ledger_D_E_rows prod_eq_iff)
  with balance_computed_on_read [of debtor_E "snd (with_totals ledger_D_E debtor_E)" ledger_D_E] none
  have zero: "(debtor_E, \<lparr>total_debt = 0, total_paid = 0, balance = 0\<rparr>)
      \<in> set (fetchDebtors ledger_D_E)"
    by simp
  from m rows u exact none zero show ?thesis
    by blast
qed

section \<open>C5: a caller with the role viewer\<close>

text \<open>
  C5, counterexample. The claim says that each of the four write operations fails with
  an error for a caller with the role viewer. Identity \<open>V\<close> has the role viewer and no
  other; its statement to delete debtor \<open>D\<close> completes without an error and deletes
  nothing: the delete policy hides every row from it.
\<close>

theorem delete_by_viewer_raises_no_error:
  "get_user_role ledger_A ''V'' = Some viewer
   \<and> has_role ledger_A ''V'' viewer
   \<and> \<not> has_role ledger_A ''V'' staff
   \<and> \<not> has_role ledger_A ''V'' admin
   \<and> ''D'' \<in> set (map dr_id (debtors ledger_A))
   \<and> delete_debtors (Some ''V'') ''D'' ledger_A = Inr ledger_A"
proof -
  have "\<not> admins_can_delete ledger_A (Some ''V'')"
    by (simp add: admins_can_delete_def viewer_roles)
  then have "delete_debtors (Some ''V'') ''D'' ledger_A = Inr ledger_A"
    by (rule delete_nothing)
  moreover have "''D'' \<in> set (map dr_id (debtors ledger_A))"
    by (simp add: ledger_A_def debtor_D_def)
  ultimately show ?thesis
    by (simp add: viewer_roles)
qed

text \<open>
  C5, amended. For a caller who is neither an administrator nor a member of staff, no
  write operation changes the ledger. The store rejects an insert of a debtor with the
  error of the insert policy, and an insert of a debt or of a payment with that error
  or, when the amount does not fit the column, with the error of the conversion. A
  delete of a debtor removes no row and raises no error. The three entry pages
  redirect a caller whose role is viewer to the listing and render no form; a
  submission that reaches the store nevertheless leaves the ledger as it was.
\<close>

theorem viewer_changes_nothing:
  assumes "\<not> admins_and_staff_can_insert db session"
  shows "insert_debtors session new_id now debtor db = Inl insufficient_privilege
    \<and> (insert_debts to_numeric session new_id now debt db = Inl insufficient_privilege
        \<or> insert_debts to_numeric session new_id now debt db = Inl numeric_value_out_of_range)
    \<and> (insert_payments to_numeric session new_id now payment db = Inl insufficient_privilege
        \<or> insert_payments to_numeric session new_id now payment db
           = Inl numeric_value_out_of_range)
    \<and> delete_debtors session i db = Inr db
    \<and> AddDebtorPage (Some viewer) session new_id now formData db = (Redirected, db)
    \<and> AddDebtPage (Some viewer) to_numeric session new_id now selectedDebtor amount reason db
        = (Redirected, db)
    \<and> AddPaymentPage (Some viewer) to_numeric session new_id now debtors' selectedDebtor amount db
        = (Redirected, db)
    \<and> AddDebtorPage_handleSubmit session new_id now formData db
        = (Error (Store insufficient_privilege), db)
    \<and> snd (AddDebtPage_handleSubmit to_numeric session new_id now selectedDebtor amount reason db)
        = db
    \<and> snd (AddPaymentPage_handleSubmit to_numeric session new_id now debtors' selectedDebtor
             amount db) = db"
proof -
  have 1: "insert_debtors session new_id now debtor' db = Inl insufficient_privilege" for debtor'
    using assms by (simp add: insert_debtors_def)
  have 2: "insert_debts to_numeric session new_id now debt' db = Inl insufficient_privilege
        \<or> insert_debts to_numeric session new_id now debt' db = Inl numeric_value_out_of_range"
    for debt'
    using assms by (simp add: insert_debts_def coerce_amount_def split: option.splits)
  have 3: "insert_payments to_numeric session new_id now payment' db = Inl insufficient_privilege
        \<or> insert_payments to_numeric session new_id now payment' db
           = Inl numeric_value_out_of_range" for payment'
    using assms by (simp add: insert_payments_def coerce_amount_def split: option.splits)
  have 4: "delete_debtors session i db = Inr db"
    by (rule delete_nothing [OF not_insert_not_delete [OF assms]])
  have 5: "AddDebtorPage (Some viewer) session new_id now formData db = (Redirected, db)"
    "AddDebtPage (Some viewer) to_numeric session new_id now selectedDebtor amount reason db
        = (Redirected, db)"
    "AddPaymentPage (Some viewer) to_numeric session new_id now debtors' selectedDebtor amount db
        = (Redirected, db)"
    by (simp_all add: AddDebtorPage_def AddDebtPage_def AddPaymentPage_def may_enter_def)
  have 6: "AddDebtorPage_handleSubmit session new_id now formData db
        = (Error (Store insufficient_privilege), db)"
    by (simp add: AddDebtorPage_handleSubmit_def 1)
  have 7: "snd (AddDebtPage_handleSubmit to_numeric session new_id now selectedDebtor amount reason db)
        = db"
    using 2 [of "\<lparr>dei_debtor_id = selectedDebtor, dei_amount = json_number amount,
                         dei_reason = trim reason, dei_created_by = the session\<rparr>"]
    by (auto simp: AddDebtPage_handleSubmit_def split: option.splits sum.splits)
  have 8: "snd (AddPaymentPage_insert to_numeric session new_id now selectedDebtor amount db) = db"
    using 3 [of "\<lparr>pai_debtor_id = selectedDebtor, pai_amount = json_number amount,
                   pai_created_by = the session\<rparr>"]
    by (auto simp: AddPaymentPage_insert_def split: option.splits sum.splits)
  have 9: "snd (AddPaymentPage_handleSubmit to_numeric session new_id now debtors' selectedDebtor
             amount db) = db"
    by (simp add: AddPaymentPage_handleSubmit_def 8 split: option.splits)
  from 1 2 3 4 5 6 7 9 show ?thesis
    by blast
qed

text \<open>
  Witness for C5: identity \<open>V\<close>, whose only role is viewer, with a debtor, a debt of
  10.00 and a payment of 10.00 for debtor \<open>D\<close>, and the delete of debtor \<open>D\<close>.
\<close>

theorem viewer_changes_nothing_witness:
  "\<not> admins_and_staff_can_insert ledger_A (Some ''V'')
   \<and> insert_debtors (Some ''V'') ''F'' 9
       \<lparr>di_name = utf16 ''Finn'', di_phone_number = utf16 ''555-0003'', di_guarantor_name = None,
        di_guarantor_phone = None\<rparr> ledger_A = Inl insufficient_privilege
   \<and> insert_debts numeric_12_2 (Some ''V'') ''d9'' 9
       \<lparr>dei_debtor_id = ''D'', dei_amount = Some 10, dei_reason = utf16 ''loan'',
        dei_created_by = ''V''\<rparr> ledger_A = Inl insufficient_privilege
   \<and> insert_payments numeric_12_2 (Some ''V'') ''p9'' 9
       \<lparr>pai_debtor_id = ''D'', pai_amount = Some 10, pai_created_by = ''V''\<rparr> ledger_A
       = Inl insufficient_privilege
   \<and> delete_debtors (Some ''V'') ''D'' ledger_A = Inr ledger_A
   \<and> AddDebtorPage (Some viewer) (Some ''V'') ''F'' 9
       \<lparr>f_name = utf16 ''Finn'', f_phoneNumber = utf16 ''555-0003'', f_guarantorName = [],
        f_guarantorPhone = []\<rparr> ledger_A = (Redirected, ledger_A)
   \<and> AddDebtPage (Some viewer) numeric_12_2 (Some ''V'') ''d9'' 9 ''D'' (Num 10) (utf16 ''loan'') ledger_A
       = (Redirected, ledger_A)
   \<and> AddPaymentPage (Some viewer) numeric_12_2 (Some ''V'') ''p9'' 9
       (fetchDebtorsWithBalance ledger_A) ''D'' (Num 10) ledger_A = (Redirected, ledger_A)"
proof -
  have 1: "\<not> admins_and_staff_can_insert ledger_A (Some ''V'')"
    by (simp add: admins_and_staff_can_insert_def viewer_roles)
  note inst = viewer_changes_nothing [OF 1, where to_numeric = numeric_12_2 and now = 9
      and i = "''D''" and selectedDebtor = "''D''" and amount = "Num 10" and reason = "utf16 ''loan''"
      and debtors' = "fetchDebtorsWithBalance ledger_A"
      and debtor = "\<lparr>di_name = utf16 ''Finn'', di_phone_number = utf16 ''555-0003'',
        di_guarantor_name = None, di_guarantor_phone = None\<rparr>"
      and debt = "\<lparr>dei_debtor_id = ''D'', dei_amount = Some 10, dei_reason = utf16 ''loan'',
        dei_created_by = ''V''\<rparr>"
      and payment = "\<lparr>pai_debtor_id = ''D'', pai_amount = Some 10, pai_created_by = ''V''\<rparr>"
      and formData = "\<lparr>f_name = utf16 ''Finn'', f_phoneNumber = utf16 ''555-0003'', f_guarantorName = [],
        f_guarantorPhone = []\<rparr>"]
  have 2: "insert_debts numeric_12_2 (Some ''V'') ''d9'' 9
       \<lparr>dei_debtor_id = ''D'', dei_amount = Some 10, dei_reason = utf16 ''loan'',
        dei_created_by = ''V''\<rparr> ledger_A \<noteq> Inl numeric_value_out_of_range"
    by (simp add: insert_debts_def coerce_amount_def numeric_10 1)
  have 3: "insert_payments numeric_12_2 (Some ''V'') ''p9'' 9
       \<lparr>pai_debtor_id = ''D'', pai_amount = Some 10, pai_created_by = ''V''\<rparr> ledger_A
       \<noteq> Inl numeric_value_out_of_range"
    by (simp add: insert_payments_def coerce_amount_def numeric_10 1)
  from inst [where new_id = "''F''"] inst [where new_id = "''d9''"] inst [where new_id = "''p9''"]
    1 2 3
  show ?thesis
    by blast
qed

section \<open>C6: deleting a debtor\<close>

text \<open>
  C6. When an administrator deletes a debtor, the one statement removes the row of the
  debtor and every debt and every payment whose \<^verbatim>\<open>debtor_id\<close> is the id of that debtor;
  the rows of other debtors and the other tables stay as they were, and afterwards no
  debt and no payment refers to the deleted debtor. For every caller and every id, the
  statement yields either the ledger as it was or a ledger without the debtor and
  without any row that refers to it, and for a caller who is not an administrator it
  yields the ledger as it was. While the store executes the statement, marking the
  rows of the debtor one at a time, a reader sees at every moment either the ledger
  as it was (until the commit, and for ever when the transaction aborts) or the
  ledger that the statement yields (from the commit on): no state with a part of the
  rows removed is visible. From its start the statement can run to its commit.
\<close>

theorem delete_debtor_cascades:
  assumes "admins_can_delete db session" and "i \<in> set (map dr_id (debtors db))"
  shows "(\<exists>db'. delete_debtors session i db = Inr db'
            \<and> debtors db' = filter (\<lambda>d. dr_id d \<noteq> i) (debtors db)
            \<and> debts db' = filter (\<lambda>x. de_debtor_id x \<noteq> i) (debts db)
            \<and> payments db' = filter (\<lambda>x. pa_debtor_id x \<noteq> i) (payments db)
            \<and> auth_users db' = auth_users db
            \<and> profiles db' = profiles db
            \<and> user_roles db' = user_roles db
            \<and> i \<notin> set (map dr_id (debtors db'))
            \<and> i \<notin> set (map de_debtor_id (debts db'))
            \<and> i \<notin> set (map pa_debtor_id (payments db')))
    \<and> (delete_debtors session' i' db = Inr db
        \<or> (\<exists>db'. delete_debtors session' i' db = Inr db'
              \<and> i' \<notin> set (map dr_id (debtors db'))
              \<and> i' \<notin> set (map de_debtor_id (debts db'))
              \<and> i' \<notin> set (map pa_debtor_id (payments db'))))
    \<and> (\<not> admins_can_delete db session' \<longrightarrow> delete_debtors session' i' db = Inr db)
    \<and> (deleting_from db session' i' s
        \<longrightarrow> (dl_status s \<noteq> committed \<longrightarrow> snapshot db s = db)
            \<and> (dl_status s = committed
                 \<longrightarrow> Inr (snapshot db s) = delete_debtors session' i' db))
    \<and> (\<exists>s'. deleting_from db session' i' s' \<and> dl_status s' = committed)"
proof -
  have 1: "\<exists>db'. delete_debtors session i db = Inr db'
            \<and> debtors db' = filter (\<lambda>d. dr_id d \<noteq> i) (debtors db)
            \<and> debts db' = filter (\<lambda>x. de_debtor_id x \<noteq> i) (debts db)
            \<and> payments db' = filter (\<lambda>x. pa_debtor_id x \<noteq> i) (payments db)
            \<and> auth_users db' = auth_users db
            \<and> profiles db' = profiles db
            \<and> user_roles db' = user_roles db
            \<and> i \<notin> set (map dr_id (debtors db'))
            \<and> i \<notin> set (map de_debtor_id (debts db'))
            \<and> i \<notin> set (map pa_debtor_id (payments db'))"
    by (subst delete_debtors_admin [OF assms]) auto
  have 2: "delete_debtors session' i' db = Inr db
        \<or> (\<exists>db'. delete_debtors session' i' db = Inr db'
              \<and> i' \<notin> set (map dr_id (debtors db'))
              \<and> i' \<notin> set (map de_debtor_id (debts db'))
              \<and> i' \<notin> set (map pa_debtor_id (payments db')))"
  proof (cases "admins_can_delete db session' \<and> i' \<in> set (map dr_id (debtors db))")
    case True
    then have "delete_debtors session' i' db
     = Inr (db\<lparr>debtors := filter (\<lambda>d. dr_id d \<noteq> i') (debtors db),
               debts := filter (\<lambda>x. de_debtor_id x \<noteq> i') (debts db),
               payments := filter (\<lambda>x. pa_debtor_id x \<noteq> i') (payments db)\<rparr>)"
      by (intro delete_debtors_admin) blast+
    then show ?thesis
      by auto
  next
    case False
    then have "delete_debtors session' i' db = Inr db"
      using delete_nothing [of db session' i'] delete_debtors_absent [of i' db session']
      by blast
    then show ?thesis
      by blast
  qed
  have 3: "delete_debtors session' i' db = Inr db" if "\<not> admins_can_delete db session'"
    using that by (rule delete_nothing)
  have 4: "(dl_status s \<noteq> committed \<longrightarrow> snapshot db s = db)
            \<and> (dl_status s = committed
                 \<longrightarrow> Inr (snapshot db s) = delete_debtors session' i' db)"
    if "deleting_from db session' i' s"
    using snapshot_uncommitted [OF sound_reachable [OF that]]
      snapshot_committed [OF sound_reachable [OF that]]
    by blast
  have "dl_status (start_delete db) = in_progress"
    by (simp add: start_delete_def)
  from delete_completes [OF this, of db session' i']
  have 5: "\<exists>s'. deleting_from db session' i' s' \<and> dl_status s' = committed"
    unfolding deleting_from_def .
  from 1 2 3 4 5 show ?thesis
    by blast
qed

text \<open>
  Witness for C6: administrator \<open>A\<close> deletes debtor \<open>D\<close>, who has two debts and a
  payment; debtor \<open>E\<close> and the debt of \<open>E\<close> remain. While the debtor and one of its
  debts are marked and the transaction is in progress, a reader sees the whole
  ledger; after the commit it sees the ledger without \<open>D\<close>. The same statement by
  \<open>S\<close>, who has the role staff, deletes nothing.
\<close>

theorem delete_debtor_cascades_witness:
  "admins_can_delete ledger_A (Some ''A'')
   \<and> ''D'' \<in> set (map dr_id (debtors ledger_A))
   \<and> map de_debtor_id (debts ledger_A) = [''D'', ''E'', ''D'']
   \<and> map pa_debtor_id (payments ledger_A) = [''D'']
   \<and> delete_debtors (Some ''A'') ''D'' ledger_A
       = Inr (ledger_A\<lparr>debtors := [debtor_E], debts := [debt_of_E], payments := []\<rparr>)
   \<and> \<not> admins_can_delete ledger_A (Some ''S'')
   \<and> delete_debtors (Some ''S'') ''D'' ledger_A = Inr ledger_A
   \<and> deleting_from ledger_A (Some ''A'') ''D'' half_deleted
   \<and> dl_status half_deleted \<noteq> committed
   \<and> snapshot ledger_A half_deleted = ledger_A
   \<and> deleting_from ledger_A (Some ''A'') ''D'' fully_deleted
   \<and> dl_status fully_deleted = committed
   \<and> snapshot ledger_A fully_deleted
       = ledger_A\<lparr>debtors := [debtor_E], debts := [debt_of_E], payments := []\<rparr>"
proof -
  have 1: "admins_can_delete ledger_A (Some ''A'')"
    by (rule admin_may_delete)
  have 2: "''D'' \<in> set (map dr_id (debtors ledger_A))"
    by (simp add: ledger_A_debtors)
  have 3: "map de_debtor_id (debts ledger_A) = [''D'', ''E'', ''D'']"
    "map pa_debtor_id (payments ledger_A) = [''D'']"
    by (simp_all add: ledger_A_def debt_of_D_def debt_of_E_def payment_of_D_def)
  have 4: "filter (\<lambda>d. dr_id d \<noteq> ''D'') (debtors ledger_A) = [debtor_E]"
    "filter (\<lambda>x. de_debtor_id x \<noteq> ''D'') (debts ledger_A) = [debt_of_E]"
    "filter (\<lambda>x. pa_debtor_id x \<noteq> ''D'') (payments ledger_A) = []"
    by (simp_all add: ledger_A_def debtor_D_def debtor_E_def debt_of_D_def debt_of_E_def
        payment_of_D_def)
  from delete_debtor_cascades [OF 1 2, THEN conjunct1]
  obtain db' where r: "delete_debtors (Some ''A'') ''D'' ledger_A = Inr db'"
    and d: "debtors db' = filter (\<lambda>d. dr_id d \<noteq> ''D'') (debtors ledger_A)"
      "debts db' = filter (\<lambda>x. de_debtor_id x \<noteq> ''D'') (debts ledger_A)"
      "payments db' = filter (\<lambda>x. pa_debtor_id x \<noteq> ''D'') (payments ledger_A)"
      "auth_users db' = auth_users ledger_A"
      "profiles db' = profiles ledger_A"
      "user_roles db' = user_roles ledger_A"
    by blast
  from d have "db' = ledger_A\<lparr>debtors := [debtor_E], debts := [debt_of_E], payments := []\<rparr>"
    by (simp add: 4)
  with r have 5: "delete_debtors (Some ''A'') ''D'' ledger_A
       = Inr (ledger_A\<lparr>debtors := [debtor_E], debts := [debt_of_E], payments := []\<rparr>)"
    by simp
  have 6: "\<not> admins_can_delete ledger_A (Some ''S'')"
    by (simp add: admins_can_delete_def has_role_def ledger_A_def)
  with delete_debtor_cascades [OF 1 2, where session' = "Some ''S''" and i' = "''D''"]
  have 7: "delete_debtors (Some ''S'') ''D'' ledger_A = Inr ledger_A"
    by blast
  have 8: "deleting_from ledger_A (Some ''A'') ''D'' half_deleted"
    by (rule half_deleted_reachable)
  have 9: "dl_status half_deleted \<noteq> committed"
    by (simp add: half_deleted_def)
  from delete_debtor_cascades [OF 1 2, where session' = "Some ''A''" and i' = "''D''"
      and s = half_deleted, THEN conjunct2, THEN conjunct2, THEN conjunct2, THEN conjunct1] 8 9
  have 10: "snapshot ledger_A half_deleted = ledger_A"
    by blast
  have 11: "deleting_from ledger_A (Some ''A'') ''D'' fully_deleted"
    by (rule fully_deleted_reachable)
  have 12: "dl_status fully_deleted = committed"
    by (simp add: fully_deleted_def)
  from delete_debtor_cascades [OF 1 2, where session' = "Some ''A''" and i' = "''D''"
      and s = fully_deleted, THEN conjunct2, THEN conjunct2, THEN conjunct2, THEN conjunct1] 11 12
  have "Inr (snapshot ledger_A fully_deleted) = delete_debtors (Some ''A'') ''D'' ledger_A"
    by blast
  with 5 have 13: "snapshot ledger_A fully_deleted
       = ledger_A\<lparr>debtors := [debtor_E], debts := [debt_of_E], payments := []\<rparr>"
    by simp
  from 1 2 3 5 6 7 8 9 10 11 12 13 show ?thesis
    by blast
qed

section \<open>C7: the fields of a debtor\<close>




section \<open>C8: the role of a new identity\<close>

text \<open>
  C8. The claim says that a new identity receives the role viewer in the statement
  that creates it. The trigger function \<^verbatim>\<open>handle_new_user\<close> inserts a profile and a role
  row with the role viewer, but it runs with an empty search path and names the type
  of the role without its schema: the cast \<^verbatim>\<open>'viewer'::app_role\<close> raises the error 42704
  in every call, and with it every insert into \<^verbatim>\<open>auth.users\<close> fails. The sign-up of
  identity \<open>V\<close> on the empty ledger creates no identity, no profile and no role row.
  Under a search path that holds \<^verbatim>\<open>public\<close> the same cast yields the role viewer.
\<close>

theorem new_identity_is_not_provisioned:
  "insert_auth_users ''r1'' 0 user_V empty_database = Inl undefined_object
   \<and> cast_to_app_role [] ''viewer'' = Inl undefined_object
   \<and> cast_to_app_role [''public''] ''viewer'' = Inr viewer
   \<and> handle_new_user new_id now NEW db = Inl undefined_object
   \<and> (insert_auth_users new_id now NEW db = Inl unique_violation
       \<or> insert_auth_users new_id now NEW db = Inl undefined_object)"
  by (simp add: insert_auth_users_def handle_new_user_def cast_to_app_role_def
      schema_of_app_role_def empty_database_def)

section \<open>C9: the listing and the search\<close>

text \<open>
  C9, counterexample. Debtor \<open>D\<close> has the debts 0.10, 0.20 and 0.30, recorded in this
  order. The listing adds them in the order of the table and computes the total debt
  0.6000000000000001; the search finds the same debtor, adds the same rows sorted by
  date, newest first, and computes 0.6.
\<close>

theorem listing_and_search_totals_differ:
  "fetchDebtors ledger_dimes =
     [(debtor_D, \<lparr>total_debt = 1351079888211149 / 2251799813685248, total_paid = 0,
                  balance = 1351079888211149 / 2251799813685248\<rparr>)]
   \<and> handleSearch name_or_phone_ilike (utf16 ''Dana'') ledger_dimes
       = Some (Some (debtor_with_history ledger_dimes debtor_D))
   \<and> dh_totals (debtor_with_history ledger_dimes debtor_D) =
       \<lparr>total_debt = 5404319552844595 / 9007199254740992, total_paid = 0,
        balance = 5404319552844595 / 9007199254740992\<rparr>
   \<and> (1351079888211149 / 2251799813685248 :: rat) \<noteq> 5404319552844595 / 9007199254740992"
  by (simp add: fetchDebtors_ledger_dimes handleSearch_ledger_dimes
      debtor_with_history_ledger_dimes)

text \<open>
  C9, amended. The totals that the listing attaches to a debtor are computed from the
  debts and payments of that debtor alone: they are the same in every ledger in which
  this debtor has the same rows in the same order. They are the totals that the
  search computes for the debtor whenever the search, which sorts the rows by date,
  newest first, adds them in the order of the listing, and whenever no step of the
  summations rounds in either order.
\<close>

theorem listing_totals_and_search_totals:
  assumes "(d, t) \<in> set (fetchDebtors db)"
  shows "(d \<in> set (debtors db') \<and> debts_of db' (dr_id d) = debts_of db (dr_id d)
           \<and> payments_of db' (dr_id d) = payments_of db (dr_id d)
         \<longrightarrow> (d, t) \<in> set (fetchDebtors db'))
    \<and> (order_desc de_date_recorded (debts_of db (dr_id d)) = debts_of db (dr_id d)
           \<and> order_desc pa_date_paid (payments_of db (dr_id d)) = payments_of db (dr_id d)
         \<longrightarrow> dh_totals (debtor_with_history db d) = t)
    \<and> (unrounded 0 (map de_amount (debts_of db (dr_id d)))
           \<and> unrounded 0 (map de_amount (order_desc de_date_recorded (debts_of db (dr_id d))))
           \<and> unrounded 0 (map pa_amount (payments_of db (dr_id d)))
           \<and> unrounded 0 (map pa_amount (order_desc pa_date_paid (payments_of db (dr_id d))))
         \<longrightarrow> dh_totals (debtor_with_history db d) = t)"
proof -
  note t = fetchDebtors_totals [OF assms]
  have 1: "(d, t) \<in> set (fetchDebtors db')"
    if "d \<in> set (debtors db') \<and> debts_of db' (dr_id d) = debts_of db (dr_id d)
           \<and> payments_of db' (dr_id d) = payments_of db (dr_id d)"
  proof -
    from assms have "(d, t) = with_totals db d"
      by (simp add: fetchDebtors_iff)
    also from that have "with_totals db d = with_totals db' d"
      by (simp add: with_totals_def)
    finally have "(d, t) = with_totals db' d" .
    with that have "d \<in> set (debtors db') \<and> (d, t) = with_totals db' d"
      by blast
    then show ?thesis
      by (rule iffD2 [OF fetchDebtors_iff])
  qed
  have 2: "dh_totals (debtor_with_history db d) = t"
    if "order_desc de_date_recorded (debts_of db (dr_id d)) = debts_of db (dr_id d)
           \<and> order_desc pa_date_paid (payments_of db (dr_id d)) = payments_of db (dr_id d)"
    using that by (subst t) (simp add: dh_totals_debtor_with_history)
  have 3: "dh_totals (debtor_with_history db d) = t"
    if u: "unrounded 0 (map de_amount (debts_of db (dr_id d)))
           \<and> unrounded 0 (map de_amount (order_desc de_date_recorded (debts_of db (dr_id d))))
           \<and> unrounded 0 (map pa_amount (payments_of db (dr_id d)))
           \<and> unrounded 0 (map pa_amount (order_desc pa_date_paid (payments_of db (dr_id d))))"
  proof -
    have "mset (map de_amount (order_desc de_date_recorded (debts_of db (dr_id d))))
          = mset (map de_amount (debts_of db (dr_id d)))"
      by simp
    with u have a: "reduce_amounts (map de_amount (order_desc de_date_recorded (debts_of db (dr_id d))))
          = reduce_amounts (map de_amount (debts_of db (dr_id d)))"
      by (intro reduce_amounts_mset) blast+
    have "mset (map pa_amount (order_desc pa_date_paid (payments_of db (dr_id d))))
          = mset (map pa_amount (payments_of db (dr_id d)))"
      by simp
    with u have b: "reduce_amounts (map pa_amount (order_desc pa_date_paid (payments_of db (dr_id d))))
          = reduce_amounts (map pa_amount (payments_of db (dr_id d)))"
      by (intro reduce_amounts_mset) blast+
    show ?thesis
      by (subst t) (simp add: dh_totals_debtor_with_history a b)
  qed
  from 1 2 3 show ?thesis
    by blast
qed

text \<open>
  Witness for C9. Debtor \<open>D\<close> has the same totals in the ledger that holds debtor
  \<open>E\<close> as well. In the ledger that returns the debts 0.30, 0.20 and 0.10 newest
  first, the search adds them in the order of the listing and computes the same
  totals. For the debts 50.00 and 25.50 and the payment 30.00 no addition rounds:
  the listing adds 50.00 + 25.50, the search 25.50 + 50.00, with the same totals.
\<close>

theorem listing_totals_and_search_totals_witness:
  "(debtor_D, \<lparr>total_debt = 151 / 2, total_paid = 30, balance = 91 / 2\<rparr>)
     \<in> set (fetchDebtors ledger_D)
   \<and> debtor_D \<in> set (debtors ledger_D_E)
   \<and> debts_of ledger_D_E (dr_id debtor_D) = debts_of ledger_D (dr_id debtor_D)
   \<and> payments_of ledger_D_E (dr_id debtor_D) = payments_of ledger_D (dr_id debtor_D)
   \<and> (debtor_D, \<lparr>total_debt = 151 / 2, total_paid = 30, balance = 91 / 2\<rparr>)
     \<in> set (fetchDebtors ledger_D_E)
   \<and> (debtor_D, \<lparr>total_debt = 5404319552844595 / 9007199254740992, total_paid = 0,
                  balance = 5404319552844595 / 9007199254740992\<rparr>)
     \<in> set (fetchDebtors ledger_dimes_reversed)
   \<and> order_desc de_date_recorded (debts_of ledger_dimes_reversed (dr_id debtor_D))
       = debts_of ledger_dimes_reversed (dr_id debtor_D)
   \<and> order_desc pa_date_paid (payments_of ledger_dimes_reversed (dr_id debtor_D))
       = payments_of ledger_dimes_reversed (dr_id debtor_D)
   \<and> dh_totals (debtor_with_history ledger_dimes_reversed debtor_D)
       = \<lparr>total_debt = 5404319552844595 / 9007199254740992, total_paid = 0,
          balance = 5404319552844595 / 9007199254740992\<rparr>
   \<and> map de_amount (debts_of ledger_D (dr_id debtor_D)) = [5000, 2550]
   \<and> map de_amount (order_desc de_date_recorded (debts_of ledger_D (dr_id debtor_D))) = [2550, 5000]
   \<and> unrounded 0 (map de_amount (debts_of ledger_D (dr_id debtor_D)))
   \<and> unrounded 0 (map de_amount (order_desc de_date_recorded (debts_of ledger_D (dr_id debtor_D))))
   \<and> unrounded 0 (map pa_amount (payments_of ledger_D (dr_id debtor_D)))
   \<and> unrounded 0 (map pa_amount (order_desc pa_date_paid (payments_of ledger_D (dr_id debtor_D))))
   \<and> dh_totals (debtor_with_history ledger_D debtor_D)
       = \<lparr>total_debt = 151 / 2, total_paid = 30, balance = 91 / 2\<rparr>"
proof -
  let ?tD = "\<lparr>total_debt = 151 / 2, total_paid = 30, balance = 91 / 2\<rparr> :: totals"
  let ?tR = "\<lparr>total_debt = 5404319552844595 / 9007199254740992, total_paid = 0,
              balance = 5404319552844595 / 9007199254740992\<rparr> :: totals"
  have m: "(debtor_D, ?tD) \<in> set (fetchDebtors ledger_D)"
    by (simp add: fetchDebtors_ledger_D)
  have same: "debtor_D \<in> set (debtors ledger_D_E)"
    "debts_of ledger_D_E (dr_id debtor_D) = debts_of ledger_D (dr_id debtor_D)"
    "payments_of ledger_D_E (dr_id debtor_D) = payments_of ledger_D (dr_id debtor_D)"
    by (simp_all add: ledger_D_E_rows ledger_D_rows)
  have r: "(debtor_D, ?tR) \<in> set (fetchDebtors ledger_dimes_reversed)"
    by (simp add: fetchDebtors_ledger_dimes_reversed)
  have sorted: "order_desc de_date_recorded (debts_of ledger_dimes_reversed (dr_id debtor_D))
       = debts_of ledger_dimes_reversed (dr_id debtor_D)"
    "order_desc pa_date_paid (payments_of ledger_dimes_reversed (dr_id debtor_D))
       = payments_of ledger_dimes_reversed (dr_id debtor_D)"
    by (simp_all add: ledger_D_rows ledger_dimes_reversed_sorted)
  have rows: "map de_amount (debts_of ledger_D (dr_id debtor_D)) = [5000, 2550]"
    "map de_amount (order_desc de_date_recorded (debts_of ledger_D (dr_id debtor_D))) = [2550, 5000]"
    by (simp_all add: ledger_D_rows ledger_D_sorted)
  have u: "unrounded 0 (map de_amount (debts_of ledger_D (dr_id debtor_D)))"
    "unrounded 0 (map de_amount (order_desc de_date_recorded (debts_of ledger_D (dr_id debtor_D))))"
    "unrounded 0 (map pa_amount (payments_of ledger_D (dr_id debtor_D)))"
    "unrounded 0 (map pa_amount (order_desc pa_date_paid (payments_of ledger_D (dr_id debtor_D))))"
    by (simp_all add: ledger_D_rows ledger_D_sorted unrounded_5000_2550 unrounded_2550_5000
        unrounded_3000)
  from listing_totals_and_search_totals [OF m, of ledger_D_E] same
  have 1: "(debtor_D, ?tD) \<in> set (fetchDebtors ledger_D_E)"
    by blast
  from listing_totals_and_search_totals [OF r, of ledger_dimes_reversed] sorted
  have 2: "dh_totals (debtor_with_history ledger_dimes_reversed debtor_D) = ?tR"
    by blast
  from listing_totals_and_search_totals [OF m, of ledger_D] u
  have 3: "dh_totals (debtor_with_history ledger_D debtor_D) = ?tD"
    by blast
  from m same 1 r sorted 2 rows u 3 show ?thesis
    by blast
qed

section \<open>C10: a payment of the whole balance\<close>



end
